theory Spec2Isabelle
  imports Complex_Main
begin

section \<open>Postal-code validation\<close>

text \<open>
  All three validators (\<^verbatim>\<open>isValidZipcode\<close> of the standalone service,
  \<^verbatim>\<open>ServiceA.isValidZipcode\<close> and \<^verbatim>\<open>ServiceB.isValidZipcode\<close>) are
  \<^verbatim>\<open>matched, _ := regexp.MatchString(`^\d{8}$`, zipcode); return matched\<close>.
  The pattern is embedded as a term of the fragment of Go's regular expression syntax
  it uses: the anchors \<^verbatim>\<open>^\<close> and \<^verbatim>\<open>$\<close> (beginning and end of the text: no
  multi-line flag is set, and in Go \<^verbatim>\<open>$\<close> does not match before a final newline),
  the Perl class \<^verbatim>\<open>\d\<close> (ASCII \<^verbatim>\<open>[0-9]\<close> only), the counted repetition
  \<^verbatim>\<open>{n}\<close> and concatenation.

  A Go string is a sequence of bytes, here a \<^typ>\<open>string\<close>. The regexp package reads
  the text rune by rune; a rune that is not a single ASCII byte is never matched by
  \<^verbatim>\<open>\d\<close>, so matching byte by byte decides this pattern in the same way.
\<close>

datatype regex =
    BeginText
  | EndText
  | PerlDigit
  | Repeat regex nat
  | Concat regex regex

definition is_digit :: "char \<Rightarrow> bool" where
  "is_digit c = (48 \<le> (of_char c :: nat) \<and> (of_char c :: nat) \<le> 57)"

text \<open>\<open>iter n step ps\<close>: the positions reached from \<open>ps\<close> by \<open>n\<close> rounds of \<open>step\<close>.\<close>

primrec iter :: "nat \<Rightarrow> (nat \<Rightarrow> nat list) \<Rightarrow> nat list \<Rightarrow> nat list" where
  "iter 0 step ps = ps"
| "iter (Suc n) step ps = iter n step (concat (map step ps))"

text \<open>\<open>match_from r s i\<close>: the end positions of the matches of \<open>r\<close> in \<open>s\<close> that start at \<open>i\<close>.\<close>

primrec match_from :: "regex \<Rightarrow> string \<Rightarrow> nat \<Rightarrow> nat list" where
  "match_from BeginText s i = (if i = 0 then [i] else [])"
| "match_from EndText s i = (if i = length s then [i] else [])"
| "match_from PerlDigit s i = (if i < length s \<and> is_digit (s ! i) then [Suc i] else [])"
| "match_from (Repeat r n) s i = iter n (match_from r s) [i]"
| "match_from (Concat r1 r2) s i = concat (map (match_from r2 s) (match_from r1 s i))"

text \<open>\<^verbatim>\<open>regexp.MatchString\<close>: does the text contain a match, starting anywhere?\<close>

definition MatchString :: "regex \<Rightarrow> string \<Rightarrow> bool" where
  "MatchString r s = list_ex (\<lambda>i. match_from r s i \<noteq> []) [0 ..< Suc (length s)]"

text \<open>The pattern \<^verbatim>\<open>^\d{8}$\<close>.\<close>

definition zipcode_pattern :: regex where
  "zipcode_pattern = Concat BeginText (Concat (Repeat PerlDigit 8) EndText)"

definition isValidZipcode :: "string \<Rightarrow> bool" where
  "isValidZipcode zipcode = MatchString zipcode_pattern zipcode"

definition ServiceA_isValidZipcode :: "string \<Rightarrow> bool" where
  "ServiceA_isValidZipcode zipcode = MatchString zipcode_pattern zipcode"

definition ServiceB_isValidZipcode :: "string \<Rightarrow> bool" where
  "ServiceB_isValidZipcode zipcode = MatchString zipcode_pattern zipcode"

section \<open>Configuration loading\<close>

text \<open>
  The process environment maps a variable name to its value, when set.
  \<^verbatim>\<open>os.Getenv\<close> returns the empty string for a variable that is not set.
\<close>

type_synonym environ = "string \<rightharpoonup> string"

definition Getenv :: "environ \<Rightarrow> string \<Rightarrow> string" where
  "Getenv e key = (case e key of None \<Rightarrow> [] | Some v \<Rightarrow> v)"

text \<open>
  \<^verbatim>\<open>strconv.ParseBool\<close> of Go's standard library: it accepts exactly
  \<^verbatim>\<open>1, t, T, TRUE, true, True, 0, f, F, FALSE, false, False\<close>;
  any other string is a syntax error (\<open>None\<close>).
\<close>

definition ParseBool :: "string \<Rightarrow> bool option" where
  "ParseBool str =
     (if str \<in> set [''1'', ''t'', ''T'', ''TRUE'', ''true'', ''True''] then Some True
      else if str \<in> set [''0'', ''f'', ''F'', ''FALSE'', ''false'', ''False''] then Some False
      else None)"

subsection \<open>Package \<^verbatim>\<open>config\<close> (standalone service)\<close>

record Config =
  Port :: string
  WeatherAPIKey :: string
  DevMode :: bool
  LogJSON :: bool
  LogLevel :: string

definition getEnv :: "environ \<Rightarrow> string \<Rightarrow> string \<Rightarrow> string" where
  "getEnv e key defaultValue =
     (let v = Getenv e key in if v = [] then defaultValue else v)"

definition getEnvAsBool :: "environ \<Rightarrow> string \<Rightarrow> bool \<Rightarrow> bool" where
  "getEnvAsBool e key defaultValue =
     (let v = Getenv e key in
      if v = [] then defaultValue
      else case ParseBool v of
             None \<Rightarrow> defaultValue
           | Some b \<Rightarrow> b)"

definition GetConfig :: "environ \<Rightarrow> Config" where
  "GetConfig e =
     \<lparr> Port = getEnv e ''PORT'' ''8080'',
       WeatherAPIKey = Getenv e ''WEATHER_API_KEY'',
       DevMode = getEnvAsBool e ''DEV_MODE'' False,
       LogJSON = getEnvAsBool e ''LOG_JSON'' False,
       LogLevel = getEnv e ''LOG_LEVEL'' ''INFO'' \<rparr>"

subsection \<open>Package \<^verbatim>\<open>shared\<close> (Gateway and Resolver)\<close>

record shared_Config =
  shared_Port :: string
  shared_LogLevel :: string
  shared_LogJSON :: bool
  shared_WeatherAPIKey :: string
  ServiceBURL :: string
  ZipkinURL :: string

definition shared_getEnv :: "environ \<Rightarrow> string \<Rightarrow> string \<Rightarrow> string" where
  "shared_getEnv e key defaultValue =
     (let v = Getenv e key in if v \<noteq> [] then v else defaultValue)"

definition getEnvBool :: "environ \<Rightarrow> string \<Rightarrow> bool \<Rightarrow> bool" where
  "getEnvBool e key defaultValue =
     (let v = Getenv e key in
      if v \<noteq> [] then
        (case ParseBool v of
           Some boolValue \<Rightarrow> boolValue
         | None \<Rightarrow> defaultValue)
      else defaultValue)"

definition shared_GetConfig :: "environ \<Rightarrow> shared_Config" where
  "shared_GetConfig e =
     \<lparr> shared_Port = shared_getEnv e ''PORT'' ''8080'',
       shared_LogLevel = shared_getEnv e ''LOG_LEVEL'' ''INFO'',
       shared_LogJSON = getEnvBool e ''LOG_JSON'' False,
       shared_WeatherAPIKey = shared_getEnv e ''WEATHER_API_KEY'' [],
       ServiceBURL = shared_getEnv e ''SERVICE_B_URL'' ''http://localhost:8081'',
       ZipkinURL = shared_getEnv e ''ZIPKIN_URL'' ''http://localhost:9411'' \<rparr>"

section \<open>Logging, tracing and the process state\<close>

text \<open>
  Both logger packages (\<^verbatim>\<open>logging\<close> of the standalone service and \<^verbatim>\<open>shared\<close>)
  print one line per call that passes the level filter. A line is kept as its level and
  message; the fields map, the time stamp and the choice between JSON and text layout
  only shape the printed line and are never read back, so they are left out.
  \<^verbatim>\<open>Printf\<close> is a line printed by a direct call of the standard \<^verbatim>\<open>log\<close> package.
\<close>

datatype Level = DEBUG | INFO | WARN | ERROR | FATAL

text \<open>The numeric value of a level (\<^verbatim>\<open>iota\<close>).\<close>

primrec level_value :: "Level \<Rightarrow> nat" where
  "level_value DEBUG = 0"
| "level_value INFO = 1"
| "level_value WARN = 2"
| "level_value ERROR = 3"
| "level_value FATAL = 4"

record Logger =
  level :: Level
  enableJSON :: bool

datatype log_line = is_Entry: Entry Level string | is_Printf: Printf string

datatype span_event =
    SpanStart string
  | SpanAddEvent string string
  | SpanEnd string

text \<open>
  An outbound HTTP request: method, URL, headers set on it and body.
\<close>

datatype outbound =
  Outbound (o_method: string) (o_url: string) (o_header: "(string \<times> string) list")
    (o_body: "string option")

text \<open>
  The state of the running process that a handler can read or change. \<open>config\<close> and
  \<open>logger\<close> are the handles created once in \<^verbatim>\<open>main\<close> (the globals \<^verbatim>\<open>conf\<close> and
  \<^verbatim>\<open>logger\<close> of the standalone service, the fields of the \<^verbatim>\<open>ServiceA\<close> and
  \<^verbatim>\<open>ServiceB\<close> structs); \<open>log_output\<close> is what has been printed to the log so far,
  \<open>spans\<close> what has been handed to the tracer, and \<open>calls\<close> the outbound HTTP
  requests sent so far, oldest first. The HTTP client's timeout shows up only as a
  transport error of the call.
\<close>

record 'c process =
  config :: 'c
  logger :: Logger
  log_output :: "log_line list"
  spans :: "span_event list"
  calls :: "outbound list"

definition println :: "log_line \<Rightarrow> 'c process \<Rightarrow> 'c process" where
  "println l p = p\<lparr>log_output := log_output p @ [l]\<rparr>"

subsection \<open>Package \<^verbatim>\<open>logging\<close>\<close>

text \<open>\<^verbatim>\<open>Logger.log\<close>: \<^verbatim>\<open>if level < l.level { return }\<close>, then print.\<close>

definition Logger_log :: "Level \<Rightarrow> string \<Rightarrow> 'c process \<Rightarrow> 'c process" where
  "Logger_log lv message p =
     (if level_value lv < level_value (level (logger p)) then p
      else println (Entry lv message) p)"

definition Logger_Debug :: "string \<Rightarrow> 'c process \<Rightarrow> 'c process" where
  "Logger_Debug message p = Logger_log DEBUG message p"

definition Logger_Info :: "string \<Rightarrow> 'c process \<Rightarrow> 'c process" where
  "Logger_Info message p = Logger_log INFO message p"

definition Logger_Warn :: "string \<Rightarrow> 'c process \<Rightarrow> 'c process" where
  "Logger_Warn message p = Logger_log WARN message p"

definition Logger_Error :: "string \<Rightarrow> 'c process \<Rightarrow> 'c process" where
  "Logger_Error message p = Logger_log ERROR message p"

text \<open>\<^verbatim>\<open>log.Printf\<close> of the standard library: no level, no filter.\<close>

definition log_Printf :: "string \<Rightarrow> 'c process \<Rightarrow> 'c process" where
  "log_Printf line p = println (Printf line) p"

subsection \<open>Package \<^verbatim>\<open>shared\<close>\<close>

definition shared_log :: "Level \<Rightarrow> string \<Rightarrow> 'c process \<Rightarrow> 'c process" where
  "shared_log lv message p = println (Entry lv message) p"

definition shared_Debug :: "string \<Rightarrow> 'c process \<Rightarrow> 'c process" where
  "shared_Debug message p =
     (if level_value (level (logger p)) \<le> level_value DEBUG then shared_log DEBUG message p else p)"

definition shared_Info :: "string \<Rightarrow> 'c process \<Rightarrow> 'c process" where
  "shared_Info message p =
     (if level_value (level (logger p)) \<le> level_value INFO then shared_log INFO message p else p)"

definition shared_Warn :: "string \<Rightarrow> 'c process \<Rightarrow> 'c process" where
  "shared_Warn message p =
     (if level_value (level (logger p)) \<le> level_value WARN then shared_log WARN message p else p)"

definition shared_Error :: "string \<Rightarrow> 'c process \<Rightarrow> 'c process" where
  "shared_Error message p =
     (if level_value (level (logger p)) \<le> level_value ERROR then shared_log ERROR message p else p)"

text \<open>
  \<^verbatim>\<open>shared.CreateSpan\<close>, \<^verbatim>\<open>span.AddEvent\<close> and \<^verbatim>\<open>span.End\<close>, by span name; event
  attributes (the postal code, the city, the measured duration) go to the tracer only.
\<close>

definition CreateSpan :: "string \<Rightarrow> 'c process \<Rightarrow> 'c process" where
  "CreateSpan name p = p\<lparr>spans := spans p @ [SpanStart name]\<rparr>"

definition AddEvent :: "string \<Rightarrow> string \<Rightarrow> 'c process \<Rightarrow> 'c process" where
  "AddEvent name event p = p\<lparr>spans := spans p @ [SpanAddEvent name event]\<rparr>"

definition span_End :: "string \<Rightarrow> 'c process \<Rightarrow> 'c process" where
  "span_End name p = p\<lparr>spans := spans p @ [SpanEnd name]\<rparr>"

section \<open>Wire types\<close>

text \<open>
  \<^verbatim>\<open>float64\<close> is the type parameter \<open>'f\<close>: its addition and its literals are
  operations of the world below, so every result holds for IEEE-754 arithmetic as for
  any other reading of them.
\<close>

record ErrorResponse =
  Message :: string

record ViaCEPResponse =
  ViaCEP_CEP :: string
  Logradouro :: string
  Complemento :: string
  Bairro :: string
  Localidade :: string
  UF :: string
  IBGE :: string
  GIA :: string
  DDD :: string
  SIAFI :: string
  Erro :: bool

record 'f Location =
  Name :: string
  Region :: string
  Country :: string
  Lat :: 'f
  Lon :: 'f

record 'f Current =
  TempC :: 'f
  TempF :: 'f

record 'f WeatherAPIResponse =
  Location :: "'f Location"
  Current :: "'f Current"

text \<open>\<^verbatim>\<open>WeatherResponse\<close> of the standalone service (no city).\<close>

record 'f WeatherResponse =
  out_TempC :: 'f
  out_TempF :: 'f
  out_TempK :: 'f

text \<open>
  Modelled from the spec: the declarations of \<^verbatim>\<open>shared.ZipcodeRequest\<close> and
  \<^verbatim>\<open>shared.WeatherResponse\<close> are not among the sources. The request carries the one
  field \<^verbatim>\<open>cep\<close>; the report carries \<^verbatim>\<open>city\<close>, \<^verbatim>\<open>temp_C\<close>, \<^verbatim>\<open>temp_F\<close> and
  \<^verbatim>\<open>temp_K\<close>, the four fields the Resolver fills in.
  \<^verbatim>\<open>shared.ViaCEPResponse\<close>, \<^verbatim>\<open>shared.WeatherAPIResponse\<close> and
  \<^verbatim>\<open>shared.ErrorResponse\<close> are taken to be the declarations of the standalone service
  above, whose fields the Resolver reads under the same names.
\<close>

record ZipcodeRequest =
  CEP :: string

record 'f shared_WeatherResponse =
  City :: string
  shared_TempC :: 'f
  shared_TempF :: 'f
  shared_TempK :: 'f

section \<open>HTTP\<close>

text \<open>
  A body to be read: all its bytes, or the bytes that arrive before the read fails
  and the error.
\<close>

datatype body = Bytes string | Broken string string

text \<open>\<^verbatim>\<open>io.ReadAll\<close>: the bytes read and the error, if any.\<close>

primrec ReadAll :: "body \<Rightarrow> string \<times> string option" where
  "ReadAll (Bytes b) = (b, None)"
| "ReadAll (Broken b err) = (b, Some err)"

datatype http_result = TransportError string | Response int body

record Request =
  Method :: string
  URL_Path :: string
  Body :: body
  RemoteAddr :: string

text \<open>
  What \<^verbatim>\<open>json.NewEncoder(w).Encode(v)\<close> writes: the JSON text of \<open>v\<close>, kept as
  the value it encodes. \<open>ErrorJSON \<lparr>Message = m\<rparr>\<close> is the body
  \<^verbatim>\<open>{"message":"m"}\<close>.
\<close>

datatype 'f json_body =
    ErrorJSON ErrorResponse
  | WeatherJSON "'f WeatherResponse"
  | shared_WeatherJSON "'f shared_WeatherResponse"

text \<open>
  \<^verbatim>\<open>http.ResponseWriter\<close>: the header map, the status line once it is written, and
  the bodies written, in order. \<^verbatim>\<open>WriteHeader\<close> after the status line is written is
  ignored; the first \<^verbatim>\<open>Write\<close> without a \<^verbatim>\<open>WriteHeader\<close> writes status 200.
\<close>

record 'f ResponseWriter =
  Header :: "string \<rightharpoonup> string"
  status :: "int option"
  written :: "'f json_body list"

definition new_ResponseWriter :: "'f ResponseWriter" where
  "new_ResponseWriter = \<lparr> Header = Map.empty, status = None, written = [] \<rparr>"

definition Header_Set :: "string \<Rightarrow> string \<Rightarrow> 'f ResponseWriter \<Rightarrow> 'f ResponseWriter" where
  "Header_Set k v w = w\<lparr>Header := (Header w)(k \<mapsto> v)\<rparr>"

definition WriteHeader :: "int \<Rightarrow> 'f ResponseWriter \<Rightarrow> 'f ResponseWriter" where
  "WriteHeader statusCode w =
     (if status w = None then w\<lparr>status := Some statusCode\<rparr> else w)"

definition Write :: "'f json_body \<Rightarrow> 'f ResponseWriter \<Rightarrow> 'f ResponseWriter" where
  "Write b w = (let w1 = WriteHeader 200 w in w1\<lparr>written := written w1 @ [b]\<rparr>)"

definition Encode :: "'f json_body \<Rightarrow> 'f ResponseWriter \<Rightarrow> 'f ResponseWriter" where
  "Encode v w = Write v w"

text \<open>
  The world outside the process and the library functions whose results the handlers
  branch on:
  \<^item> \<open>NewRequest_error url\<close>: the error of \<^verbatim>\<open>http.NewRequestWithContext\<close> for this
    URL, if it does not parse (the methods are the constants GET and POST);
  \<^item> \<open>client_Do req\<close>: what the network answers to an outbound request;
  \<^item> the JSON decoders, one per target type, with the error text on failure
    (\<^verbatim>\<open>json.Unmarshal\<close> on bytes, \<^verbatim>\<open>json.NewDecoder(body).Decode\<close> on a body being read),
    and \<^verbatim>\<open>json.Marshal\<close> of the request sent to the Resolver;
  \<^item> \<^verbatim>\<open>url.QueryEscape\<close>;
  \<^item> \<open>float_add\<close>, the addition of \<^verbatim>\<open>float64\<close>, and \<open>float_lit q\<close>, the
    \<^verbatim>\<open>float64\<close> constant written as the decimal \<open>q\<close>.
\<close>

record 'f world =
  NewRequest_error :: "string \<Rightarrow> string option"
  client_Do :: "outbound \<Rightarrow> http_result"
  Unmarshal_ZipcodeRequest :: "string \<Rightarrow> string + ZipcodeRequest"
  Unmarshal_WeatherResponse :: "string \<Rightarrow> string + 'f shared_WeatherResponse"
  Decode_ViaCEPResponse :: "body \<Rightarrow> string + ViaCEPResponse"
  Decode_WeatherAPIResponse :: "body \<Rightarrow> string + 'f WeatherAPIResponse"
  Marshal_ZipcodeRequest :: "ZipcodeRequest \<Rightarrow> string + string"
  QueryEscape :: "string \<Rightarrow> string"
  float_add :: "'f \<Rightarrow> 'f \<Rightarrow> 'f"
  float_lit :: "rat \<Rightarrow> 'f"

definition NewRequest ::
  "'f world \<Rightarrow> string \<Rightarrow> string \<Rightarrow> string option \<Rightarrow> string + outbound" where
  "NewRequest W method url b =
     (case NewRequest_error W url of
        Some err \<Rightarrow> Inl err
      | None \<Rightarrow> Inr (Outbound method url [] b))"

definition req_Header_Set :: "string \<Rightarrow> string \<Rightarrow> outbound \<Rightarrow> outbound" where
  "req_Header_Set k v req =
     Outbound (o_method req) (o_url req) (o_header req @ [(k, v)]) (o_body req)"

text \<open>\<^verbatim>\<open>client.Do(req)\<close>: the request goes out and the network answers.\<close>

definition Do :: "'f world \<Rightarrow> outbound \<Rightarrow> 'c process \<Rightarrow> http_result \<times> 'c process" where
  "Do W req p = (client_Do W req, p\<lparr>calls := calls p @ [req]\<rparr>)"

text \<open>
  \<^verbatim>\<open>client.Get(url)\<close>: builds the GET request and sends it; a URL that does not
  parse is returned as the call's error, and nothing is sent.
\<close>

definition Get :: "'f world \<Rightarrow> string \<Rightarrow> 'c process \<Rightarrow> http_result \<times> 'c process" where
  "Get W url p =
     (case NewRequest W ''GET'' url None of
        Inl err \<Rightarrow> (TransportError err, p)
      | Inr req \<Rightarrow> Do W req p)"

text \<open>The verb \<^verbatim>\<open>%d\<close> of \<^verbatim>\<open>fmt\<close>: an integer in decimal.\<close>

fun decimal :: "nat \<Rightarrow> string" where
  "decimal n =
     (if n < 10 then [char_of (48 + n)]
      else decimal (n div 10) @ [char_of (48 + n mod 10)])"

declare decimal.simps [simp del]

definition Itoa :: "int \<Rightarrow> string" where
  "Itoa i = (if i < 0 then CHR ''-'' # decimal (nat (- i)) else decimal (nat i))"

text \<open>UTF-8 bytes of the accented letters in the log messages.\<close>

definition ccedil :: string where "ccedil = [CHR 0xC3, CHR 0xA7]"
definition atilde :: string where "atilde = [CHR 0xC3, CHR 0xA3]"
definition aacute :: string where "aacute = [CHR 0xC3, CHR 0xA1]"
definition iacute :: string where "iacute = [CHR 0xC3, CHR 0xAD]"
definition oacute :: string where "oacute = [CHR 0xC3, CHR 0xB3]"

section \<open>Resolver (Service B)\<close>

type_synonym 'f writer_and_process = "'f ResponseWriter \<times> shared_Config process"

definition ServiceB_sendErrorResponse ::
  "string \<Rightarrow> int \<Rightarrow> 'f ResponseWriter \<Rightarrow> 'f ResponseWriter" where
  "ServiceB_sendErrorResponse message statusCode w =
     Encode (ErrorJSON \<lparr>Message = message\<rparr>) (WriteHeader statusCode w)"

definition ServiceB_getLocationFromCEP ::
  "'f world \<Rightarrow> string \<Rightarrow> shared_Config process \<Rightarrow>
     (string + ViaCEPResponse) \<times> shared_Config process" where
  "ServiceB_getLocationFromCEP W cep p0 =
     (let span = ''service-b.getLocationFromCEP'';
          p1 = CreateSpan span p0;
          p2 = AddEvent span ''Calling ViaCEP API'' p1;
          apiURL = ''https://viacep.com.br/ws/'' @ cep @ ''/json/'';
          p3 = shared_Debug ''Consultando ViaCEP'' p2;
          (res, p9) =
            (case NewRequest W ''GET'' apiURL None of
               Inl err \<Rightarrow> (Inl (''failed to create request: '' @ err), p3)
             | Inr req \<Rightarrow>
                 (let (resp, p4) = Do W req p3;
                      p5 = AddEvent span ''ViaCEP response received'' p4
                  in case resp of
                      TransportError err \<Rightarrow>
                        (Inl (''error contacting ViaCEP: '' @ err),
                         shared_Error ''Erro ao consultar ViaCEP'' p5)
                    | Response code b \<Rightarrow>
                        if code \<noteq> 200 then
                          (Inl (''ViaCEP returned status code '' @ Itoa code),
                           shared_Error (''ViaCEP retornou status inv'' @ aacute @ ''lido'') p5)
                        else
                          (case Decode_ViaCEPResponse W b of
                             Inl err \<Rightarrow>
                               (Inl (''error decoding ViaCEP response: '' @ err),
                                shared_Error ''Erro ao decodificar resposta do ViaCEP'' p5)
                           | Inr viaCEPResp \<Rightarrow>
                               if Erro viaCEPResp \<or> Localidade viaCEPResp = [] then
                                 (Inl ''CEP not found'',
                                  shared_Warn (''CEP n'' @ atilde @ ''o encontrado'') p5)
                               else
                                 (Inr viaCEPResp,
                                  shared_Info ''CEP encontrado com sucesso'' p5))))
      in (res, span_End span p9))"

definition ServiceB_getWeatherFromLocation ::
  "'f world \<Rightarrow> string \<Rightarrow> shared_Config process \<Rightarrow>
     (string + 'f WeatherAPIResponse) \<times> shared_Config process" where
  "ServiceB_getWeatherFromLocation W city p0 =
     (let span = ''service-b.getWeatherFromLocation'';
          p1 = CreateSpan span p0;
          p2 = AddEvent span ''Calling WeatherAPI'' p1;
          apiKey = shared_WeatherAPIKey (config p2);
          p3 = shared_Debug ''Verificando chave de API'' p2;
          (res, p9) =
            (if apiKey = [] then
               (Inl ''WEATHER_API_KEY environment variable not set'', p3)
             else
               let query = city @ '', Brazil'';
                   query = QueryEscape W query;
                   apiURL = ''https://api.weatherapi.com/v1/current.json?key='' @ apiKey
                              @ ''&q='' @ query @ ''&aqi=no'';
                   p4 = shared_Debug
                          (''Fazendo requisi'' @ ccedil @ atilde @ ''o para WeatherAPI'') p3
               in case NewRequest W ''GET'' apiURL None of
                    Inl err \<Rightarrow> (Inl (''failed to create request: '' @ err), p4)
                  | Inr req \<Rightarrow>
                      (let (resp, p5) = Do W req p4;
                           p6 = AddEvent span ''WeatherAPI response received'' p5
                       in case resp of
                           TransportError err \<Rightarrow>
                             (Inl (''failed to make request: '' @ err),
                              shared_Error
                                (''Falha na requisi'' @ ccedil @ atilde @ ''o HTTP'') p6)
                         | Response code b \<Rightarrow>
                             if code \<noteq> 200 then
                               let responseBody = fst (ReadAll b) in
                               (Inl (''weather API returned status code '' @ Itoa code
                                       @ '': '' @ responseBody),
                                shared_Error ''Resposta de erro da WeatherAPI'' p6)
                             else
                               (case Decode_WeatherAPIResponse W b of
                                  Inl err \<Rightarrow>
                                    (Inl (''error decoding response: '' @ err),
                                     shared_Error ''Erro ao decodificar resposta'' p6)
                                | Inr weatherResp \<Rightarrow>
                                    (Inr weatherResp,
                                     shared_Info ''Dados de clima obtidos com sucesso'' p6))))
      in (res, span_End span p9))"

definition ServiceB_handleWeatherRequest ::
  "'f world \<Rightarrow> Request \<Rightarrow> 'f ResponseWriter \<Rightarrow> shared_Config process \<Rightarrow>
     'f writer_and_process" where
  "ServiceB_handleWeatherRequest W r w0 p0 =
     (let span = ''service-b.handleWeatherRequest'';
          p1 = CreateSpan span p0;
          w = Header_Set ''Content-Type'' ''application/json'' w0;
          (w9, p9) =
            (if Method r \<noteq> ''POST'' then
               (ServiceB_sendErrorResponse ''method not allowed'' 405 w, p1)
             else
               (case ReadAll (Body r) of
                 (b, Some err) \<Rightarrow>
                   (ServiceB_sendErrorResponse ''invalid request body'' 400 w,
                    shared_Error (''Erro ao ler body da requisi'' @ ccedil @ atilde @ ''o'') p1)
               | (b, None) \<Rightarrow>
                   (case Unmarshal_ZipcodeRequest W b of
                      Inl err \<Rightarrow>
                        (ServiceB_sendErrorResponse ''invalid json format'' 400 w,
                         shared_Error ''Erro ao fazer parse do JSON'' p1)
                    | Inr request \<Rightarrow>
                        let p2 = shared_Info
                                   (''Requisi'' @ ccedil @ atilde @ ''o recebida'') p1
                        in if \<not> ServiceB_isValidZipcode (CEP request) then
                             (ServiceB_sendErrorResponse ''invalid zipcode'' 422 w,
                              shared_Warn (''CEP inv'' @ aacute @ ''lido'') p2)
                           else
                             (case ServiceB_getLocationFromCEP W (CEP request) p2 of
                               (Inl err, p3) \<Rightarrow>
                                 (ServiceB_sendErrorResponse ''can not find zipcode'' 404 w,
                                  shared_Error
                                    (''Erro ao obter localiza'' @ ccedil @ atilde @ ''o'') p3)
                             | (Inr location, p3) \<Rightarrow>
                                 (let p4 = shared_Info
                                            (''Localiza'' @ ccedil @ atilde @ ''o encontrada'') p3
                                  in case ServiceB_getWeatherFromLocation W
                                           (Localidade location) p4 of
                                      (Inl err, p5) \<Rightarrow>
                                        (ServiceB_sendErrorResponse
                                           ''error getting weather information'' 500 w,
                                         shared_Error ''Erro ao obter clima'' p5)
                                    | (Inr weather, p5) \<Rightarrow>
                                        let response =
                                              \<lparr> City = Localidade location,
                                                shared_TempC = TempC (Current weather),
                                                shared_TempF = TempF (Current weather),
                                                shared_TempK =
                                                  float_add W (TempC (Current weather))
                                                    (float_lit W (27315 / 100)) \<rparr>;
                                            p6 = shared_Info ''Enviando resposta'' p5
                                        in (Encode (shared_WeatherJSON response) w, p6)))))
                               )
      in (w9, span_End span p9))"

section \<open>Gateway (Service A)\<close>

definition ServiceA_sendErrorResponse ::
  "string \<Rightarrow> int \<Rightarrow> 'f ResponseWriter \<Rightarrow> 'f ResponseWriter" where
  "ServiceA_sendErrorResponse message statusCode w =
     Encode (ErrorJSON \<lparr>Message = message\<rparr>) (WriteHeader statusCode w)"

definition ServiceA_callServiceB ::
  "'f world \<Rightarrow> string \<Rightarrow> shared_Config process \<Rightarrow>
     (string + 'f shared_WeatherResponse) \<times> shared_Config process" where
  "ServiceA_callServiceB W cep p0 =
     (let span = ''service-a.callServiceB'';
          p1 = CreateSpan span p0;
          p2 = AddEvent span ''Calling Service B'' p1;
          requestBody = \<lparr>CEP = cep\<rparr>;
          (res, p9) =
            (case Marshal_ZipcodeRequest W requestBody of
               Inl err \<Rightarrow> (Inl (''failed to marshal request: '' @ err), p2)
             | Inr jsonBody \<Rightarrow>
                 (case NewRequest W ''POST'' (ServiceBURL (config p2) @ ''/weather'')
                         (Some jsonBody) of
                    Inl err \<Rightarrow> (Inl (''failed to create request: '' @ err), p2)
                  | Inr req0 \<Rightarrow>
                      (let req = req_Header_Set ''Content-Type'' ''application/json'' req0;
                           (resp, p3) = Do W req p2;
                           p4 = AddEvent span ''Service B response received'' p3
                       in case resp of
                           TransportError err \<Rightarrow>
                             (Inl (''failed to make request to service B: '' @ err), p4)
                         | Response code b \<Rightarrow>
                             (case ReadAll b of
                                (respBody, Some err) \<Rightarrow>
                                  (Inl (''failed to read response body: '' @ err), p4)
                              | (respBody, None) \<Rightarrow>
                                  let p5 = shared_Debug ''Resposta do Service B'' p4
                                  in if code = 404 then (Inl ''can not find zipcode'', p5)
                                     else if code = 422 then (Inl ''invalid zipcode'', p5)
                                     else if code \<noteq> 200 then
                                       (Inl (''service B returned status '' @ Itoa code
                                               @ '': '' @ respBody), p5)
                                     else
                                       (case Unmarshal_WeatherResponse W respBody of
                                          Inl err \<Rightarrow>
                                            (Inl (''failed to unmarshal response: '' @ err), p5)
                                        | Inr weatherResponse \<Rightarrow>
                                            (Inr weatherResponse, p5))))))
      in (res, span_End span p9))"

definition ServiceA_handleCEPRequest ::
  "'f world \<Rightarrow> Request \<Rightarrow> 'f ResponseWriter \<Rightarrow> shared_Config process \<Rightarrow>
     'f writer_and_process" where
  "ServiceA_handleCEPRequest W r w0 p0 =
     (let span = ''service-a.handleCEPRequest'';
          p1 = CreateSpan span p0;
          w = Header_Set ''Content-Type'' ''application/json'' w0;
          (w9, p9) =
            (if Method r \<noteq> ''POST'' then
               (ServiceA_sendErrorResponse ''method not allowed'' 405 w, p1)
             else
               (case ReadAll (Body r) of
                 (b, Some err) \<Rightarrow>
                   (ServiceA_sendErrorResponse ''invalid request body'' 400 w,
                    shared_Error (''Erro ao ler body da requisi'' @ ccedil @ atilde @ ''o'') p1)
               | (b, None) \<Rightarrow>
                   (case Unmarshal_ZipcodeRequest W b of
                      Inl err \<Rightarrow>
                        (ServiceA_sendErrorResponse ''invalid json format'' 400 w,
                         shared_Error ''Erro ao fazer parse do JSON'' p1)
                    | Inr request \<Rightarrow>
                        let p2 = shared_Info
                                   (''Requisi'' @ ccedil @ atilde @ ''o recebida'') p1
                        in if \<not> ServiceA_isValidZipcode (CEP request) then
                             (ServiceA_sendErrorResponse ''invalid zipcode'' 422 w,
                              shared_Warn (''CEP inv'' @ aacute @ ''lido'') p2)
                           else
                             (case ServiceA_callServiceB W (CEP request) p2 of
                               (Inl err, p3) \<Rightarrow>
                                 let p4 = shared_Error ''Erro ao chamar Service B'' p3
                                 in if err = ''can not find zipcode'' then
                                      (ServiceA_sendErrorResponse
                                         ''can not find zipcode'' 404 w, p4)
                                    else if err = ''invalid zipcode'' then
                                      (ServiceA_sendErrorResponse ''invalid zipcode'' 422 w, p4)
                                    else
                                      (ServiceA_sendErrorResponse
                                         ''error processing request'' 500 w, p4)
                             | (Inr weatherResponse, p3) \<Rightarrow>
                                 (Encode (shared_WeatherJSON weatherResponse) w, p3))))
                               )
      in (w9, span_End span p9))"

section \<open>Standalone service\<close>

definition sendErrorResponse ::
  "string \<Rightarrow> int \<Rightarrow> 'f ResponseWriter \<Rightarrow> 'f ResponseWriter" where
  "sendErrorResponse message statusCode w =
     Encode (ErrorJSON \<lparr>Message = message\<rparr>) (WriteHeader statusCode w)"

text \<open>
  \<^verbatim>\<open>getLocationFromCEP\<close> and \<^verbatim>\<open>getWeatherFromLocation\<close> are package variables
  holding function values; these are the values they are initialised with, which no
  code of the service reassigns.
\<close>

definition getLocationFromCEP ::
  "'f world \<Rightarrow> string \<Rightarrow> Config process \<Rightarrow> (string + ViaCEPResponse) \<times> Config process" where
  "getLocationFromCEP W cep p0 =
     (let apiURL = ''https://viacep.com.br/ws/'' @ cep @ ''/json/'';
          p1 = Logger_Debug ''Consultando ViaCEP'' p0;
          (resp, p2) = Get W apiURL p1
      in case resp of
           TransportError err \<Rightarrow>
             (Inl (''error contacting ViaCEP: '' @ err),
              Logger_Error ''Erro ao consultar ViaCEP'' p2)
         | Response code b \<Rightarrow>
             if code \<noteq> 200 then
               (Inl (''ViaCEP returned status code '' @ Itoa code),
                Logger_Error (''ViaCEP retornou status inv'' @ aacute @ ''lido'') p2)
             else
               (case Decode_ViaCEPResponse W b of
                  Inl err \<Rightarrow>
                    (Inl (''error decoding ViaCEP response: '' @ err),
                     Logger_Error ''Erro ao decodificar resposta do ViaCEP'' p2)
                | Inr viaCEPResp \<Rightarrow>
                    if Erro viaCEPResp \<or> Localidade viaCEPResp = [] then
                      (Inl ''CEP not found'',
                       Logger_Warn (''CEP n'' @ atilde @ ''o encontrado'') p2)
                    else
                      (Inr viaCEPResp, Logger_Info ''CEP encontrado com sucesso'' p2)))"

definition getWeatherFromLocation ::
  "'f world \<Rightarrow> string \<Rightarrow> Config process \<Rightarrow>
     (string + 'f WeatherAPIResponse) \<times> Config process" where
  "getWeatherFromLocation W city p0 =
     (let apiKey = WeatherAPIKey (config p0);
          p1 = Logger_Debug ''Verificando chave de API'' p0
      in if apiKey = [] then
           (Inl ''WEATHER_API_KEY environment variable not set'', p1)
         else
           let query = city @ '', Brazil'';
               query = QueryEscape W query;
               apiURL = ''https://api.weatherapi.com/v1/current.json?key='' @ apiKey
                          @ ''&q='' @ query @ ''&aqi=no'';
               p2 = Logger_Debug
                      (''Fazendo requisi'' @ ccedil @ atilde @ ''o para WeatherAPI'') p1;
               (resp, p3) = Get W apiURL p2
           in case resp of
                TransportError err \<Rightarrow>
                  (Inl (''failed to make request: '' @ err),
                   Logger_Error (''Falha na requisi'' @ ccedil @ atilde @ ''o HTTP'') p3)
              | Response code b \<Rightarrow>
                  if code \<noteq> 200 then
                    let responseBody = fst (ReadAll b) in
                    (Inl (''weather API returned status code '' @ Itoa code
                            @ '': '' @ responseBody),
                     Logger_Error ''Resposta de erro da WeatherAPI'' p3)
                  else
                    (case Decode_WeatherAPIResponse W b of
                       Inl err \<Rightarrow>
                         (Inl (''error decoding response: '' @ err),
                          Logger_Error ''Erro ao decodificar resposta'' p3)
                     | Inr weatherResp \<Rightarrow>
                         (Inr weatherResp,
                          Logger_Info ''Dados de clima obtidos com sucesso'' p3)))"

text \<open>
  \<^verbatim>\<open>getMockWeatherData\<close>: the zero value of the response with the name, the country
  and the two temperatures filled in. It prints through the standard \<^verbatim>\<open>log\<close> package.
\<close>

definition getMockWeatherData ::
  "'f world \<Rightarrow> string \<Rightarrow> Config process \<Rightarrow> 'f WeatherAPIResponse \<times> Config process" where
  "getMockWeatherData W city p0 =
     (let p1 = log_Printf (''Using mock weather data for '' @ city) p0;
          resp = \<lparr> Location = \<lparr> Name = city, Region = [], Country = ''Brazil'',
                                Lat = float_lit W 0, Lon = float_lit W 0 \<rparr>,
                   Current = \<lparr> TempC = float_lit W 25, TempF = float_lit W 77 \<rparr> \<rparr>
      in (resp, p1))"

text \<open>
  \<^verbatim>\<open>handleWeatherRequest\<close>. The slice \<^verbatim>\<open>r.URL.Path[len("/weather/"):]\<close> panics on a
  path shorter than the prefix (\<open>None\<close>); the route \<^verbatim>\<open>/weather/\<close> under which
  \<^verbatim>\<open>main\<close> registers the handler only passes paths that have the prefix.
\<close>

definition handleWeatherRequest ::
  "'f world \<Rightarrow> Request \<Rightarrow> 'f ResponseWriter \<Rightarrow> Config process \<Rightarrow>
     ('f ResponseWriter \<times> Config process) option" where
  "handleWeatherRequest W r w0 p0 =
     (let w = Header_Set ''Content-Type'' ''application/json'' w0 in
      if length (URL_Path r) < length ''/weather/'' then None
      else Some
       (let zipcode = drop (length ''/weather/'') (URL_Path r);
            p1 = Logger_Info (''Requisi'' @ ccedil @ atilde @ ''o recebida'') p0
        in if \<not> isValidZipcode zipcode then
             (sendErrorResponse ''invalid zipcode'' 422 w,
              Logger_Warn (''CEP inv'' @ aacute @ ''lido'') p1)
           else
             (case getLocationFromCEP W zipcode p1 of
               (Inl err, p2) \<Rightarrow>
                 (sendErrorResponse ''can not find zipcode'' 404 w,
                  Logger_Error (''Erro ao obter localiza'' @ ccedil @ atilde @ ''o'') p2)
             | (Inr location, p2) \<Rightarrow>
                 (let p3 = Logger_Info (''Localiza'' @ ccedil @ atilde @ ''o encontrada'') p2;
                     (res, p4) = getWeatherFromLocation W (Localidade location) p3;
                     checked =
                       (case res of
                          Inl err \<Rightarrow>
                            let p5 = Logger_Error ''Erro ao obter clima'' p4
                            in if DevMode (config p5) then
                                 Inr (getMockWeatherData W (Localidade location)
                                        (Logger_Info ''Usando dados simulados'' p5))
                               else
                                 Inl (sendErrorResponse
                                        ''error getting weather information'' 500 w, p5)
                        | Inr weather \<Rightarrow> Inr (weather, p4))
                 in case checked of
                      Inl returned \<Rightarrow> returned
                    | Inr (weather, p6) \<Rightarrow>
                        let response =
                              \<lparr> out_TempC = TempC (Current weather),
                                out_TempF = TempF (Current weather),
                                out_TempK = float_add W (TempC (Current weather))
                                              (float_lit W (27315 / 100)) \<rparr>;
                            p7 = Logger_Info ''Enviando resposta'' p6
                        in (Encode (WeatherJSON response) w, p7)))))"

section \<open>Test doubles\<close>

text \<open>
  A stub world in the manner of the repository's tests, used to run the handlers on
  concrete requests. \<^verbatim>\<open>float64\<close> is read as \<^typ>\<open>rat\<close> with exact addition. Bodies
  are short names: the stub decoders map each name to the value it stands for, and
  the body of a request to the services is the postal code itself. The geocoding stub
  knows the postal code 29902555 (Vitoria, ES), answers 99999999 with its not-found
  flag and anything else with status 400; the weather stub answers 25.5 and 77.9
  degrees; the stub of the Resolver answers as the Resolver does on these codes.
\<close>

definition Vitoria :: string where
  "Vitoria = ''Vit'' @ oacute @ ''ria''"

definition stub_location :: ViaCEPResponse where
  "stub_location =
     \<lparr> ViaCEP_CEP = ''29902-555'', Logradouro = [], Complemento = [], Bairro = [],
       Localidade = Vitoria, UF = ''ES'', IBGE = [], GIA = [], DDD = ''27'', SIAFI = [],
       Erro = False \<rparr>"

definition stub_not_found :: ViaCEPResponse where
  "stub_not_found =
     \<lparr> ViaCEP_CEP = [], Logradouro = [], Complemento = [], Bairro = [],
       Localidade = [], UF = [], IBGE = [], GIA = [], DDD = [], SIAFI = [],
       Erro = True \<rparr>"

definition stub_weather :: "rat WeatherAPIResponse" where
  "stub_weather =
     \<lparr> Location = \<lparr> Name = Vitoria, Region = ''Espirito Santo'', Country = ''Brazil'',
                    Lat = - 2032 / 100, Lon = - 4035 / 100 \<rparr>,
       Current = \<lparr> TempC = 51 / 2, TempF = 779 / 10 \<rparr> \<rparr>"

definition stub_report :: "rat shared_WeatherResponse" where
  "stub_report =
     \<lparr> City = Vitoria, shared_TempC = 51 / 2, shared_TempF = 779 / 10,
       shared_TempK = 5973 / 20 \<rparr>"

definition stub_network :: "outbound \<Rightarrow> http_result" where
  "stub_network req =
     (if o_url req = ''https://viacep.com.br/ws/29902555/json/'' then
        Response 200 (Bytes ''location'')
      else if o_url req = ''https://viacep.com.br/ws/99999999/json/'' then
        Response 200 (Bytes ''erro'')
      else if take 22 (o_url req) = ''https://viacep.com.br/'' then
        Response 400 (Bytes [])
      else if take 27 (o_url req) = ''https://api.weatherapi.com/'' then
        Response 200 (Bytes ''weather'')
      else if o_url req = ''http://service-b:8081/weather'' then
        (if o_body req = Some ''29902555'' then Response 200 (Bytes ''report'')
         else if o_body req = Some ''99999999'' then Response 404 (Bytes ''not found'')
         else if o_body req = Some ''12345'' then Response 422 (Bytes ''invalid'')
         else Response 500 (Bytes ''weather''))
      else TransportError ''no such host'')"

definition stub_world :: "rat world" where
  "stub_world =
     \<lparr> NewRequest_error = (\<lambda>url. None),
       client_Do = stub_network,
       Unmarshal_ZipcodeRequest = (\<lambda>b. Inr \<lparr>CEP = b\<rparr>),
       Unmarshal_WeatherResponse =
         (\<lambda>b. if b = ''report'' then Inr stub_report
              else Inl ''unexpected end of JSON input''),
       Decode_ViaCEPResponse =
         (\<lambda>b. if b = Bytes ''location'' then Inr stub_location
              else if b = Bytes ''erro'' then Inr stub_not_found
              else Inl ''EOF''),
       Decode_WeatherAPIResponse =
         (\<lambda>b. if b = Bytes ''weather'' then Inr stub_weather else Inl ''EOF''),
       Marshal_ZipcodeRequest = (\<lambda>request. Inr (CEP request)),
       QueryEscape = (\<lambda>s. s),
       float_add = (+),
       float_lit = (\<lambda>q. q) \<rparr>"

definition stub_logger :: Logger where
  "stub_logger = \<lparr> level = INFO, enableJSON = False \<rparr>"

text \<open>The two services, freshly started; the second has no weather API key.\<close>

definition stub_services :: "shared_Config process" where
  "stub_services =
     \<lparr> config = \<lparr> shared_Port = ''8080'', shared_LogLevel = ''INFO'', shared_LogJSON = False,
                  shared_WeatherAPIKey = ''test_api_key'',
                  ServiceBURL = ''http://service-b:8081'',
                  ZipkinURL = ''http://zipkin:9411/api/v2/spans'' \<rparr>,
       logger = stub_logger, log_output = [], spans = [], calls = [] \<rparr>"

definition stub_services_no_key :: "shared_Config process" where
  "stub_services_no_key =
     stub_services\<lparr>config := (config stub_services)\<lparr>shared_WeatherAPIKey := []\<rparr>\<rparr>"

text \<open>The standalone service, freshly started, with the flags and the key given.\<close>

definition stub_standalone :: "bool \<Rightarrow> string \<Rightarrow> Config process" where
  "stub_standalone dev key =
     \<lparr> config = \<lparr> Port = ''8080'', WeatherAPIKey = key, DevMode = dev, LogJSON = False,
                  LogLevel = ''INFO'' \<rparr>,
       logger = stub_logger, log_output = [], spans = [], calls = [] \<rparr>"

definition post :: "string \<Rightarrow> Request" where
  "post cep =
     \<lparr> Method = ''POST'', URL_Path = ''/cep'', Body = Bytes cep,
       RemoteAddr = ''127.0.0.1:4000'' \<rparr>"

definition get_weather :: "string \<Rightarrow> Request" where
  "get_weather cep =
     \<lparr> Method = ''GET'', URL_Path = ''/weather/'' @ cep, Body = Bytes [],
       RemoteAddr = ''127.0.0.1:4000'' \<rparr>"

section \<open>Effects of the helpers on the process state\<close>

lemma println_fields [simp]:
  "config (println l p) = config p" "logger (println l p) = logger p"
  "calls (println l p) = calls p" "spans (println l p) = spans p"
  by (simp_all add: println_def)

lemma Logger_log_fields [simp]:
  "config (Logger_log lv m p) = config p" "logger (Logger_log lv m p) = logger p"
  "calls (Logger_log lv m p) = calls p" "spans (Logger_log lv m p) = spans p"
  by (simp_all add: Logger_log_def)

lemma Logger_fields [simp]:
  "config (Logger_Debug m p) = config p" "logger (Logger_Debug m p) = logger p"
  "calls (Logger_Debug m p) = calls p"
  "config (Logger_Info m p) = config p" "logger (Logger_Info m p) = logger p"
  "calls (Logger_Info m p) = calls p"
  "config (Logger_Warn m p) = config p" "logger (Logger_Warn m p) = logger p"
  "calls (Logger_Warn m p) = calls p"
  "config (Logger_Error m p) = config p" "logger (Logger_Error m p) = logger p"
  "calls (Logger_Error m p) = calls p"
  by (simp_all add: Logger_Debug_def Logger_Info_def Logger_Warn_def Logger_Error_def)

lemma shared_log_fields [simp]:
  "config (shared_Debug m p) = config p" "logger (shared_Debug m p) = logger p"
  "calls (shared_Debug m p) = calls p"
  "config (shared_Info m p) = config p" "logger (shared_Info m p) = logger p"
  "calls (shared_Info m p) = calls p"
  "config (shared_Warn m p) = config p" "logger (shared_Warn m p) = logger p"
  "calls (shared_Warn m p) = calls p"
  "config (shared_Error m p) = config p" "logger (shared_Error m p) = logger p"
  "calls (shared_Error m p) = calls p"
  by (simp_all add: shared_Debug_def shared_Info_def shared_Warn_def shared_Error_def
        shared_log_def)

lemma span_fields [simp]:
  "config (CreateSpan n p) = config p" "logger (CreateSpan n p) = logger p"
  "calls (CreateSpan n p) = calls p" "log_output (CreateSpan n p) = log_output p"
  "config (AddEvent n ev p) = config p" "logger (AddEvent n ev p) = logger p"
  "calls (AddEvent n ev p) = calls p" "log_output (AddEvent n ev p) = log_output p"
  "config (span_End n p) = config p" "logger (span_End n p) = logger p"
  "calls (span_End n p) = calls p" "log_output (span_End n p) = log_output p"
  by (simp_all add: CreateSpan_def AddEvent_def span_End_def)

lemma Do_fields [simp]:
  "fst (Do W req p) = client_Do W req"
  "config (snd (Do W req p)) = config p" "logger (snd (Do W req p)) = logger p"
  "calls (snd (Do W req p)) = calls p @ [req]"
  "log_output (snd (Do W req p)) = log_output p"
  by (simp_all add: Do_def)

lemma Get_fields [simp]:
  "fst (Get W url p) =
     (case NewRequest_error W url of
        Some err \<Rightarrow> TransportError err
      | None \<Rightarrow> client_Do W (Outbound ''GET'' url [] None))"
  "config (snd (Get W url p)) = config p" "logger (snd (Get W url p)) = logger p"
  "calls (snd (Get W url p)) =
     (case NewRequest_error W url of
        Some err \<Rightarrow> calls p
      | None \<Rightarrow> calls p @ [Outbound ''GET'' url [] None])"
  "log_output (snd (Get W url p)) = log_output p"
  by (simp_all add: Get_def NewRequest_def split: option.splits)

subsection \<open>The lookups of the Resolver\<close>

lemma ServiceB_getLocationFromCEP_fst:
  "fst (ServiceB_getLocationFromCEP W cep p) =
     (case NewRequest_error W (''https://viacep.com.br/ws/'' @ cep @ ''/json/'') of
        Some err \<Rightarrow> Inl (''failed to create request: '' @ err)
      | None \<Rightarrow>
          (case client_Do W (Outbound ''GET'' (''https://viacep.com.br/ws/'' @ cep @ ''/json/'') [] None) of
             TransportError err \<Rightarrow> Inl (''error contacting ViaCEP: '' @ err)
           | Response code b \<Rightarrow>
               if code \<noteq> 200 then Inl (''ViaCEP returned status code '' @ Itoa code)
               else (case Decode_ViaCEPResponse W b of
                       Inl err \<Rightarrow> Inl (''error decoding ViaCEP response: '' @ err)
                     | Inr v \<Rightarrow> if Erro v \<or> Localidade v = [] then Inl ''CEP not found''
                               else Inr v)))"
  by (simp add: ServiceB_getLocationFromCEP_def NewRequest_def Let_def split_beta
      split: option.splits http_result.splits sum.splits)

lemma ServiceB_getLocationFromCEP_snd [simp]:
  "config (snd (ServiceB_getLocationFromCEP W cep p)) = config p"
  "logger (snd (ServiceB_getLocationFromCEP W cep p)) = logger p"
  "calls (snd (ServiceB_getLocationFromCEP W cep p)) =
     (case NewRequest_error W (''https://viacep.com.br/ws/'' @ cep @ ''/json/'') of
        Some err \<Rightarrow> calls p
      | None \<Rightarrow> calls p @ [Outbound ''GET'' (''https://viacep.com.br/ws/'' @ cep @ ''/json/'') [] None])"
  by (simp_all add: ServiceB_getLocationFromCEP_def NewRequest_def Let_def split_beta
      split: option.splits http_result.splits sum.splits)


lemma printed_structured [simp]:
  "filter is_Printf (log_output (Logger_log lv m p)) = filter is_Printf (log_output p)"
  "filter is_Printf (log_output (Logger_Debug m p)) = filter is_Printf (log_output p)"
  "filter is_Printf (log_output (Logger_Info m p)) = filter is_Printf (log_output p)"
  "filter is_Printf (log_output (Logger_Warn m p)) = filter is_Printf (log_output p)"
  "filter is_Printf (log_output (Logger_Error m p)) = filter is_Printf (log_output p)"
  by (simp_all add: Logger_Debug_def Logger_Info_def Logger_Warn_def Logger_Error_def
        Logger_log_def println_def)

lemma log_Printf_fields [simp]:
  "config (log_Printf l p) = config p" "logger (log_Printf l p) = logger p"
  "calls (log_Printf l p) = calls p"
  "filter is_Printf (log_output (log_Printf l p)) = filter is_Printf (log_output p) @ [Printf l]"
  by (simp_all add: log_Printf_def println_def)

lemma ServiceB_getWeatherFromLocation_fst:
  "fst (ServiceB_getWeatherFromLocation W city p) =
     (if shared_WeatherAPIKey (config p) = [] then
        Inl ''WEATHER_API_KEY environment variable not set''
      else
        let apiURL = ''https://api.weatherapi.com/v1/current.json?key=''
                       @ shared_WeatherAPIKey (config p) @ ''&q=''
                       @ QueryEscape W (city @ '', Brazil'') @ ''&aqi=no''
        in case NewRequest_error W apiURL of
             Some err \<Rightarrow> Inl (''failed to create request: '' @ err)
           | None \<Rightarrow>
               (case client_Do W (Outbound ''GET'' apiURL [] None) of
                  TransportError err \<Rightarrow> Inl (''failed to make request: '' @ err)
                | Response code b \<Rightarrow>
                    if code \<noteq> 200 then
                      Inl (''weather API returned status code '' @ Itoa code @ '': ''
                             @ fst (ReadAll b))
                    else (case Decode_WeatherAPIResponse W b of
                            Inl err \<Rightarrow> Inl (''error decoding response: '' @ err)
                          | Inr weatherResp \<Rightarrow> Inr weatherResp)))"
  by (simp add: ServiceB_getWeatherFromLocation_def NewRequest_def Let_def split_beta
      split: option.splits http_result.splits sum.splits)

lemma ServiceB_getWeatherFromLocation_snd [simp]:
  "config (snd (ServiceB_getWeatherFromLocation W city p)) = config p"
  "logger (snd (ServiceB_getWeatherFromLocation W city p)) = logger p"
  by (simp_all add: ServiceB_getWeatherFromLocation_def NewRequest_def Let_def split_beta
      split: option.splits http_result.splits sum.splits)

lemma ServiceB_getWeatherFromLocation_calls:
  "calls (snd (ServiceB_getWeatherFromLocation W city p)) =
     (if shared_WeatherAPIKey (config p) = [] then calls p
      else
        let apiURL = ''https://api.weatherapi.com/v1/current.json?key=''
                       @ shared_WeatherAPIKey (config p) @ ''&q=''
                       @ QueryEscape W (city @ '', Brazil'') @ ''&aqi=no''
        in case NewRequest_error W apiURL of
             Some err \<Rightarrow> calls p
           | None \<Rightarrow> calls p @ [Outbound ''GET'' apiURL [] None])"
  by (simp_all add: ServiceB_getWeatherFromLocation_def NewRequest_def Let_def split_beta
      split: option.splits http_result.splits sum.splits)

subsection \<open>The call of the Gateway to the Resolver\<close>

lemma ServiceA_callServiceB_fst:
  "fst (ServiceA_callServiceB W cep p) =
     (case Marshal_ZipcodeRequest W \<lparr>CEP = cep\<rparr> of
        Inl err \<Rightarrow> Inl (''failed to marshal request: '' @ err)
      | Inr jsonBody \<Rightarrow>
          (case NewRequest_error W (ServiceBURL (config p) @ ''/weather'') of
             Some err \<Rightarrow> Inl (''failed to create request: '' @ err)
           | None \<Rightarrow>
               (case client_Do W
                       (Outbound ''POST'' (ServiceBURL (config p) @ ''/weather'')
                          [(''Content-Type'', ''application/json'')] (Some jsonBody)) of
                  TransportError err \<Rightarrow> Inl (''failed to make request to service B: '' @ err)
                | Response code b \<Rightarrow>
                    (case snd (ReadAll b) of
                       Some err \<Rightarrow> Inl (''failed to read response body: '' @ err)
                     | None \<Rightarrow>
                         if code = 404 then Inl ''can not find zipcode''
                         else if code = 422 then Inl ''invalid zipcode''
                         else if code \<noteq> 200 then
                           Inl (''service B returned status '' @ Itoa code @ '': ''
                                  @ fst (ReadAll b))
                         else (case Unmarshal_WeatherResponse W (fst (ReadAll b)) of
                                 Inl err \<Rightarrow> Inl (''failed to unmarshal response: '' @ err)
                               | Inr weatherResponse \<Rightarrow> Inr weatherResponse)))))"
  by (simp add: ServiceA_callServiceB_def NewRequest_def req_Header_Set_def Let_def split_beta
      split: option.splits http_result.splits sum.splits prod.splits)

lemma ServiceA_callServiceB_snd [simp]:
  "config (snd (ServiceA_callServiceB W cep p)) = config p"
  "logger (snd (ServiceA_callServiceB W cep p)) = logger p"
  by (simp_all add: ServiceA_callServiceB_def NewRequest_def req_Header_Set_def Let_def
      split_beta split: option.splits http_result.splits sum.splits prod.splits)

subsection \<open>The lookups of the standalone service\<close>

lemma getLocationFromCEP_fst:
  "fst (getLocationFromCEP W cep p) =
     (case NewRequest_error W (''https://viacep.com.br/ws/'' @ cep @ ''/json/'') of
        Some err \<Rightarrow> Inl (''error contacting ViaCEP: '' @ err)
      | None \<Rightarrow>
          (case client_Do W (Outbound ''GET'' (''https://viacep.com.br/ws/'' @ cep @ ''/json/'') [] None) of
             TransportError err \<Rightarrow> Inl (''error contacting ViaCEP: '' @ err)
           | Response code b \<Rightarrow>
               if code \<noteq> 200 then Inl (''ViaCEP returned status code '' @ Itoa code)
               else (case Decode_ViaCEPResponse W b of
                       Inl err \<Rightarrow> Inl (''error decoding ViaCEP response: '' @ err)
                     | Inr v \<Rightarrow> if Erro v \<or> Localidade v = [] then Inl ''CEP not found''
                               else Inr v)))"
  by (simp add: getLocationFromCEP_def Get_def NewRequest_def Do_def Let_def split_beta
      split: option.splits http_result.splits sum.splits)

lemma getLocationFromCEP_snd [simp]:
  "config (snd (getLocationFromCEP W cep p)) = config p"
  "logger (snd (getLocationFromCEP W cep p)) = logger p"
  "filter is_Printf (log_output (snd (getLocationFromCEP W cep p))) =
     filter is_Printf (log_output p)"
  by (simp_all add: getLocationFromCEP_def Let_def split_beta
      split: option.splits http_result.splits sum.splits)

lemma getWeatherFromLocation_fst:
  "fst (getWeatherFromLocation W city p) =
     (if WeatherAPIKey (config p) = [] then
        Inl ''WEATHER_API_KEY environment variable not set''
      else
        let apiURL = ''https://api.weatherapi.com/v1/current.json?key=''
                       @ WeatherAPIKey (config p) @ ''&q=''
                       @ QueryEscape W (city @ '', Brazil'') @ ''&aqi=no''
        in case NewRequest_error W apiURL of
             Some err \<Rightarrow> Inl (''failed to make request: '' @ err)
           | None \<Rightarrow>
               (case client_Do W (Outbound ''GET'' apiURL [] None) of
                  TransportError err \<Rightarrow> Inl (''failed to make request: '' @ err)
                | Response code b \<Rightarrow>
                    if code \<noteq> 200 then
                      Inl (''weather API returned status code '' @ Itoa code @ '': ''
                             @ fst (ReadAll b))
                    else (case Decode_WeatherAPIResponse W b of
                            Inl err \<Rightarrow> Inl (''error decoding response: '' @ err)
                          | Inr weatherResp \<Rightarrow> Inr weatherResp)))"
  by (simp add: getWeatherFromLocation_def Get_def NewRequest_def Do_def Let_def split_beta
      split: option.splits http_result.splits sum.splits)

lemma getWeatherFromLocation_snd [simp]:
  "config (snd (getWeatherFromLocation W city p)) = config p"
  "logger (snd (getWeatherFromLocation W city p)) = logger p"
  "filter is_Printf (log_output (snd (getWeatherFromLocation W city p))) =
     filter is_Printf (log_output p)"
  by (simp_all add: getWeatherFromLocation_def Let_def split_beta
      split: option.splits http_result.splits sum.splits)

lemma getWeatherFromLocation_calls:
  "WeatherAPIKey (config p) = [] \<Longrightarrow> calls (snd (getWeatherFromLocation W city p)) = calls p"
  by (simp add: getWeatherFromLocation_def Let_def)

section \<open>Properties\<close>

subsection \<open>Validation\<close>

lemma iter_Nil: "iter n step [] = []"
  by (induction n) simp_all

lemma iter_PerlDigit:
  "i \<le> length s \<Longrightarrow> iter n (match_from PerlDigit s) [i] =
     (if i + n \<le> length s \<and> (\<forall>k<n. is_digit (s ! (i + k))) then [i + n] else [])"
proof (induction n arbitrary: i)
  case 0
  then show ?case by simp
next
  case (Suc n)
  note le = \<open>i \<le> length s\<close>
  have split: "(\<forall>k<Suc n. is_digit (s ! (i + k))) \<longleftrightarrow>
               is_digit (s ! i) \<and> (\<forall>k<n. is_digit (s ! (Suc i + k)))"
    by (auto simp: less_Suc_eq_0_disj)
  show ?case
  proof (cases "i < length s \<and> is_digit (s ! i)")
    case True
    then show ?thesis using Suc.IH [of "Suc i"] split by auto
  next
    case False
    then show ?thesis using split le by (auto simp: iter_Nil)
  qed
qed

lemma match_from_zipcode_pattern:
  "match_from zipcode_pattern s i =
     (if i = 0 \<and> length s = 8 \<and> (\<forall>k<8. is_digit (s ! k)) then [8] else [])"
  by (auto simp: zipcode_pattern_def iter_PerlDigit)

lemma is_digit_iff: "is_digit c \<longleftrightarrow> c \<in> set ''0123456789''"
proof
  define n where "n = (of_char c :: nat)"
  assume "is_digit c"
  then have "48 \<le> n" and "n \<le> 57"
    by (simp_all add: is_digit_def n_def)
  then have "n = 48 \<or> n = 49 \<or> n = 50 \<or> n = 51 \<or> n = 52 \<or> n = 53 \<or> n = 54
      \<or> n = 55 \<or> n = 56 \<or> n = 57"
    by arith
  then have "(of_char c :: nat) \<in> of_char ` set ''0123456789''"
    unfolding n_def by auto
  then obtain d where d: "d \<in> set ''0123456789''" and "(of_char c :: nat) = of_char d"
    by blast
  then have "c = d"
    by simp
  with d show "c \<in> set ''0123456789''"
    by simp
next
  assume "c \<in> set ''0123456789''"
  then show "is_digit c"
    by (auto simp: is_digit_def)
qed

lemma MatchString_zipcode_pattern:
  "MatchString zipcode_pattern s \<longleftrightarrow> length s = 8 \<and> set s \<subseteq> set ''0123456789''"
proof -
  have "MatchString zipcode_pattern s \<longleftrightarrow> length s = 8 \<and> (\<forall>c\<in>set s. is_digit c)"
    by (auto simp: MatchString_def list_ex_iff match_from_zipcode_pattern all_set_conv_all_nth)
  then show ?thesis
    unfolding is_digit_iff by blast
qed

text \<open>
  C2. Each of the three validators returns true exactly for the strings of 8 ASCII
  decimal digits: a string of another length, or with a character that is not a
  digit, is rejected, and every string of 8 digits is accepted. The validators of the
  Gateway and of the Resolver decide alike.
\<close>

theorem validators_accept_exactly_eight_digits:
  "(isValidZipcode s \<longleftrightarrow> length s = 8 \<and> set s \<subseteq> set ''0123456789'')
   \<and> (ServiceA_isValidZipcode s \<longleftrightarrow> length s = 8 \<and> set s \<subseteq> set ''0123456789'')
   \<and> (ServiceB_isValidZipcode s \<longleftrightarrow> ServiceA_isValidZipcode s)"
  by (simp add: isValidZipcode_def ServiceA_isValidZipcode_def ServiceB_isValidZipcode_def
      MatchString_zipcode_pattern)

theorem validators_accept_exactly_eight_digits_witness:
  "isValidZipcode ''29902555'' \<and> ServiceA_isValidZipcode ''29902555''
   \<and> ServiceB_isValidZipcode ''29902555''
   \<and> \<not> ServiceA_isValidZipcode ''12345'' \<and> \<not> ServiceB_isValidZipcode ''12345''
   \<and> \<not> isValidZipcode ''abc12345'' \<and> \<not> isValidZipcode [] \<and> \<not> isValidZipcode ''29902-555''"
  using validators_accept_exactly_eight_digits [of "''29902555''"]
    validators_accept_exactly_eight_digits [of "''12345''"]
    validators_accept_exactly_eight_digits [of "''abc12345''"]
    validators_accept_exactly_eight_digits [of "[]"]
    validators_accept_exactly_eight_digits [of "''29902-555''"]
  by simp

subsection \<open>Configuration\<close>

lemma ParseBool_cases:
  "ParseBool v = Some True \<longleftrightarrow> v \<in> set [''1'', ''t'', ''T'', ''TRUE'', ''true'', ''True'']"
  by (simp add: ParseBool_def)

text \<open>
  C10. A boolean configuration variable that is not set, or whose value
  \<^verbatim>\<open>strconv.ParseBool\<close> rejects, takes the default handed to the loader, in
  \<^verbatim>\<open>getEnvAsBool\<close> as in \<^verbatim>\<open>getEnvBool\<close>. So an unparsable \<^verbatim>\<open>DEV_MODE\<close>
  leaves development mode off, and an unparsable \<^verbatim>\<open>LOG_JSON\<close> leaves JSON logging
  off.
\<close>

theorem unparsable_bool_yields_default:
  "e key = None \<or> (\<exists>v. e key = Some v \<and> ParseBool v = None) \<Longrightarrow>
     getEnvAsBool e key d = d \<and> getEnvBool e key d = d
     \<and> (key = ''DEV_MODE'' \<longrightarrow> \<not> DevMode (GetConfig e))
     \<and> (key = ''LOG_JSON'' \<longrightarrow> \<not> LogJSON (GetConfig e) \<and> \<not> shared_LogJSON (shared_GetConfig e))"
  by (auto simp: getEnvAsBool_def getEnvBool_def GetConfig_def shared_GetConfig_def
      Getenv_def Let_def)

theorem unparsable_bool_yields_default_witness:
  "ParseBool ''yes'' = None
   \<and> getEnvAsBool [''DEV_MODE'' \<mapsto> ''yes''] ''DEV_MODE'' False = False
   \<and> getEnvBool [''DEV_MODE'' \<mapsto> ''yes''] ''DEV_MODE'' False = False
   \<and> \<not> DevMode (GetConfig [''DEV_MODE'' \<mapsto> ''yes''])"
  using unparsable_bool_yields_default [of "[''DEV_MODE'' \<mapsto> ''yes'']" "''DEV_MODE''" False]
  by (simp add: ParseBool_def)

subsection \<open>Responses\<close>

lemma writer_simps [simp]:
  "status (Header_Set k v w) = status w" "written (Header_Set k v w) = written w"
  "status (new_ResponseWriter :: 'f ResponseWriter) = None"
  "written (new_ResponseWriter :: 'f ResponseWriter) = []"
  by (simp_all add: Header_Set_def new_ResponseWriter_def)

lemma sendErrorResponse_fresh:
  "status w = None \<Longrightarrow> written w = [] \<Longrightarrow>
     status (sendErrorResponse m c w) = Some c
     \<and> written (sendErrorResponse m c w) = [ErrorJSON \<lparr>Message = m\<rparr>]
     \<and> status (ServiceA_sendErrorResponse m c w) = Some c
     \<and> written (ServiceA_sendErrorResponse m c w) = [ErrorJSON \<lparr>Message = m\<rparr>]
     \<and> status (ServiceB_sendErrorResponse m c w) = Some c
     \<and> written (ServiceB_sendErrorResponse m c w) = [ErrorJSON \<lparr>Message = m\<rparr>]"
  by (simp add: sendErrorResponse_def ServiceA_sendErrorResponse_def
      ServiceB_sendErrorResponse_def Encode_def Write_def WriteHeader_def Let_def)

lemma Encode_fresh:
  "status w = None \<Longrightarrow> written w = [] \<Longrightarrow>
     status (Encode v w) = Some 200 \<and> written (Encode v w) = [v]"
  by (simp add: Encode_def Write_def WriteHeader_def Let_def)

lemmas fresh_writer =
  sendErrorResponse_fresh [of "Header_Set k v new_ResponseWriter" for k v, simplified]
  Encode_fresh [of "Header_Set k v new_ResponseWriter" for k v, simplified]

text \<open>
  C3. A request whose postal code fails validation is answered with status 422 and
  the body \<^verbatim>\<open>{"message":"invalid zipcode"}\<close>, and the handler sends no outbound
  HTTP request while handling it: the list of calls of the process is the one it
  started with. This holds for the Gateway, for the Resolver, and for the standalone service.
\<close>

theorem invalid_zipcode_is_422_without_outbound_call:
  "(Method r = ''POST'' \<and> ReadAll (Body r) = (b, None)
      \<and> Unmarshal_ZipcodeRequest W b = Inr request
      \<and> \<not> ServiceA_isValidZipcode (CEP request) \<longrightarrow>
      status (fst (ServiceA_handleCEPRequest W r new_ResponseWriter p)) = Some 422
      \<and> written (fst (ServiceA_handleCEPRequest W r new_ResponseWriter p))
          = [ErrorJSON \<lparr>Message = ''invalid zipcode''\<rparr>]
      \<and> calls (snd (ServiceA_handleCEPRequest W r new_ResponseWriter p)) = calls p)
   \<and> (Method r = ''POST'' \<and> ReadAll (Body r) = (b, None)
      \<and> Unmarshal_ZipcodeRequest W b = Inr request
      \<and> \<not> ServiceB_isValidZipcode (CEP request) \<longrightarrow>
      status (fst (ServiceB_handleWeatherRequest W r new_ResponseWriter p)) = Some 422
      \<and> written (fst (ServiceB_handleWeatherRequest W r new_ResponseWriter p))
          = [ErrorJSON \<lparr>Message = ''invalid zipcode''\<rparr>]
      \<and> calls (snd (ServiceB_handleWeatherRequest W r new_ResponseWriter p)) = calls p)
   \<and> (URL_Path r' = ''/weather/'' @ zipcode \<and> \<not> isValidZipcode zipcode \<longrightarrow>
      (\<exists>w q'. handleWeatherRequest W r' new_ResponseWriter q = Some (w, q')
         \<and> status w = Some 422
         \<and> written w = [ErrorJSON \<lparr>Message = ''invalid zipcode''\<rparr>]
         \<and> calls q' = calls q))"
  by (simp add: ServiceA_handleCEPRequest_def ServiceB_handleWeatherRequest_def
      handleWeatherRequest_def Let_def fresh_writer)

theorem invalid_zipcode_is_422_without_outbound_call_witness:
  "status (fst (ServiceA_handleCEPRequest stub_world (post ''12345'') new_ResponseWriter
                  stub_services)) = Some 422
   \<and> written (fst (ServiceA_handleCEPRequest stub_world (post ''12345'') new_ResponseWriter
                  stub_services)) = [ErrorJSON \<lparr>Message = ''invalid zipcode''\<rparr>]
   \<and> calls (snd (ServiceA_handleCEPRequest stub_world (post ''12345'') new_ResponseWriter
                  stub_services)) = []
   \<and> status (fst (ServiceB_handleWeatherRequest stub_world (post ''12345'') new_ResponseWriter
                  stub_services)) = Some 422
   \<and> calls (snd (ServiceB_handleWeatherRequest stub_world (post ''12345'') new_ResponseWriter
                  stub_services)) = []"
  using invalid_zipcode_is_422_without_outbound_call
    [of "post ''12345''" "''12345''" stub_world "\<lparr>CEP = ''12345''\<rparr>" stub_services]
  by (simp add: post_def stub_world_def stub_services_def ServiceA_isValidZipcode_def
      ServiceB_isValidZipcode_def MatchString_zipcode_pattern)


lemma B_reaches_lookup:
  "Method r = ''POST'' \<Longrightarrow> ReadAll (Body r) = (b, None) \<Longrightarrow>
   Unmarshal_ZipcodeRequest W b = Inr request \<Longrightarrow> ServiceB_isValidZipcode (CEP request) \<Longrightarrow>
   fst (ServiceB_handleWeatherRequest W r new_ResponseWriter p) =
     (let w = Header_Set ''Content-Type'' ''application/json'' new_ResponseWriter in
      case fst (ServiceB_getLocationFromCEP W (CEP request) p) of
        Inl err \<Rightarrow> ServiceB_sendErrorResponse ''can not find zipcode'' 404 w
      | Inr location \<Rightarrow>
          (case fst (ServiceB_getWeatherFromLocation W (Localidade location) p) of
             Inl err \<Rightarrow> ServiceB_sendErrorResponse ''error getting weather information'' 500 w
           | Inr weather \<Rightarrow>
               Encode (shared_WeatherJSON
                         \<lparr> City = Localidade location,
                           shared_TempC = TempC (Current weather),
                           shared_TempF = TempF (Current weather),
                           shared_TempK = float_add W (TempC (Current weather))
                                            (float_lit W (27315 / 100)) \<rparr>) w))"
  by (simp add: ServiceB_handleWeatherRequest_def Let_def split_beta
      ServiceB_getLocationFromCEP_fst ServiceB_getWeatherFromLocation_fst
      split: sum.splits option.splits http_result.splits)

text \<open>
  C4. In the Resolver, for a request with a well-formed postal code, each of the four
  ways the geocoding call can fail (a transport error; a status other than 200; a
  body that does not decode; a decoded answer with the not-found flag or an empty
  city) ends in status 404 with the body \<^verbatim>\<open>{"message":"can not find zipcode"}\<close>.
\<close>

theorem geocoding_failure_is_404:
  assumes "Method r = ''POST''" and "ReadAll (Body r) = (b, None)"
    and "Unmarshal_ZipcodeRequest W b = Inr request"
    and "ServiceB_isValidZipcode (CEP request)"
    and "geo = client_Do W (Outbound ''GET''
                 (''https://viacep.com.br/ws/'' @ CEP request @ ''/json/'') [] None)"
    and "(\<exists>err. geo = TransportError err)
         \<or> (\<exists>code body. geo = Response code body \<and> code \<noteq> 200)
         \<or> (\<exists>body err. geo = Response 200 body \<and> Decode_ViaCEPResponse W body = Inl err)
         \<or> (\<exists>body v. geo = Response 200 body \<and> Decode_ViaCEPResponse W body = Inr v
               \<and> (Erro v \<or> Localidade v = []))"
  shows "status (fst (ServiceB_handleWeatherRequest W r new_ResponseWriter p)) = Some 404
         \<and> written (fst (ServiceB_handleWeatherRequest W r new_ResponseWriter p))
             = [ErrorJSON \<lparr>Message = ''can not find zipcode''\<rparr>]"
proof -
  have "\<exists>err. fst (ServiceB_getLocationFromCEP W (CEP request) p) = Inl err"
    using assms(5,6)
    by (auto simp: ServiceB_getLocationFromCEP_fst split: option.splits)
  then show ?thesis
    using assms(1-4) by (auto simp: B_reaches_lookup fresh_writer)
qed

theorem geocoding_failure_is_404_witness:
  "status (fst (ServiceB_handleWeatherRequest stub_world (post ''99999999'') new_ResponseWriter
                  stub_services)) = Some 404
   \<and> written (fst (ServiceB_handleWeatherRequest stub_world (post ''99999999'')
                  new_ResponseWriter stub_services))
       = [ErrorJSON \<lparr>Message = ''can not find zipcode''\<rparr>]"
proof -
  have "Decode_ViaCEPResponse stub_world (Bytes ''erro'') = Inr stub_not_found
        \<and> (Erro stub_not_found \<or> Localidade stub_not_found = [])"
    by (simp add: stub_world_def stub_not_found_def)
  then show ?thesis
    using geocoding_failure_is_404
      [of "post ''99999999''" "''99999999''" stub_world "\<lparr>CEP = ''99999999''\<rparr>"
          "Response 200 (Bytes ''erro'')" stub_services]
    by (simp add: post_def stub_world_def stub_network_def ServiceB_isValidZipcode_def
        MatchString_zipcode_pattern)
qed


lemma A_reaches_call:
  "Method r = ''POST'' \<Longrightarrow> ReadAll (Body r) = (b, None) \<Longrightarrow>
   Unmarshal_ZipcodeRequest W b = Inr request \<Longrightarrow> ServiceA_isValidZipcode (CEP request) \<Longrightarrow>
   fst (ServiceA_handleCEPRequest W r new_ResponseWriter p) =
     (let w = Header_Set ''Content-Type'' ''application/json'' new_ResponseWriter in
      case fst (ServiceA_callServiceB W (CEP request) p) of
        Inl err \<Rightarrow>
          if err = ''can not find zipcode'' then
            ServiceA_sendErrorResponse ''can not find zipcode'' 404 w
          else if err = ''invalid zipcode'' then
            ServiceA_sendErrorResponse ''invalid zipcode'' 422 w
          else ServiceA_sendErrorResponse ''error processing request'' 500 w
      | Inr weatherResponse \<Rightarrow> Encode (shared_WeatherJSON weatherResponse) w)"
  by (simp add: ServiceA_handleCEPRequest_def Let_def split_beta ServiceA_callServiceB_fst
      split: sum.splits option.splits http_result.splits)

lemma standalone_reaches_lookup:
  "URL_Path r = ''/weather/'' @ zipcode \<Longrightarrow> isValidZipcode zipcode \<Longrightarrow>
   map_option fst (handleWeatherRequest W r new_ResponseWriter p) =
     Some
      (let w = Header_Set ''Content-Type'' ''application/json'' new_ResponseWriter in
       case fst (getLocationFromCEP W zipcode p) of
         Inl err \<Rightarrow> sendErrorResponse ''can not find zipcode'' 404 w
       | Inr location \<Rightarrow>
           (case fst (getWeatherFromLocation W (Localidade location) p) of
              Inl err \<Rightarrow>
                if DevMode (config p) then
                  Encode (WeatherJSON
                            \<lparr> out_TempC = float_lit W 25, out_TempF = float_lit W 77,
                              out_TempK = float_add W (float_lit W 25)
                                            (float_lit W (27315 / 100)) \<rparr>) w
                else sendErrorResponse ''error getting weather information'' 500 w
            | Inr weather \<Rightarrow>
                Encode (WeatherJSON
                          \<lparr> out_TempC = TempC (Current weather),
                            out_TempF = TempF (Current weather),
                            out_TempK = float_add W (TempC (Current weather))
                                          (float_lit W (27315 / 100)) \<rparr>) w))"
  by (simp add: handleWeatherRequest_def Let_def split_beta getMockWeatherData_def
      getLocationFromCEP_fst getWeatherFromLocation_fst
      split: sum.splits option.splits http_result.splits)

text \<open>
  C5. When both lookups succeed, the report carries the Celsius and Fahrenheit values
  of the weather sample as they came, and its Kelvin value is the \<^verbatim>\<open>float64\<close> sum of
  the sample's Celsius value and the constant 273.15: no Kelvin value is read from
  the sample (which has none). On the combined endpoint of the Resolver the report
  also names the city; the standalone service computes the same three values.
\<close>

theorem kelvin_is_derived_fahrenheit_is_passed_on:
  "(Method r = ''POST'' \<and> ReadAll (Body r) = (b, None)
      \<and> Unmarshal_ZipcodeRequest W b = Inr request \<and> ServiceB_isValidZipcode (CEP request)
      \<and> fst (ServiceB_getLocationFromCEP W (CEP request) p) = Inr location
      \<and> fst (ServiceB_getWeatherFromLocation W (Localidade location) p) = Inr weather \<longrightarrow>
      status (fst (ServiceB_handleWeatherRequest W r new_ResponseWriter p)) = Some 200
      \<and> written (fst (ServiceB_handleWeatherRequest W r new_ResponseWriter p)) =
          [shared_WeatherJSON
             \<lparr> City = Localidade location,
               shared_TempC = TempC (Current weather),
               shared_TempF = TempF (Current weather),
               shared_TempK = float_add W (TempC (Current weather))
                                (float_lit W (27315 / 100)) \<rparr>])
   \<and> (URL_Path r' = ''/weather/'' @ zipcode \<and> isValidZipcode zipcode
      \<and> fst (getLocationFromCEP W zipcode q) = Inr location'
      \<and> fst (getWeatherFromLocation W (Localidade location') q) = Inr weather' \<longrightarrow>
      (\<exists>w q'. handleWeatherRequest W r' new_ResponseWriter q = Some (w, q')
         \<and> status w = Some 200
         \<and> written w =
             [WeatherJSON
                \<lparr> out_TempC = TempC (Current weather'),
                  out_TempF = TempF (Current weather'),
                  out_TempK = float_add W (TempC (Current weather'))
                                (float_lit W (27315 / 100)) \<rparr>]))"
proof (intro conjI impI)
  assume "Method r = ''POST'' \<and> ReadAll (Body r) = (b, None)
      \<and> Unmarshal_ZipcodeRequest W b = Inr request \<and> ServiceB_isValidZipcode (CEP request)
      \<and> fst (ServiceB_getLocationFromCEP W (CEP request) p) = Inr location
      \<and> fst (ServiceB_getWeatherFromLocation W (Localidade location) p) = Inr weather"
  then have w: "fst (ServiceB_handleWeatherRequest W r new_ResponseWriter p) =
      Encode (shared_WeatherJSON
             \<lparr> City = Localidade location,
               shared_TempC = TempC (Current weather),
               shared_TempF = TempF (Current weather),
               shared_TempK = float_add W (TempC (Current weather))
                                (float_lit W (27315 / 100)) \<rparr>)
        (Header_Set ''Content-Type'' ''application/json'' new_ResponseWriter)"
    by (simp add: B_reaches_lookup)
  show "status (fst (ServiceB_handleWeatherRequest W r new_ResponseWriter p)) = Some 200"
    unfolding w by (simp add: fresh_writer)
  show "written (fst (ServiceB_handleWeatherRequest W r new_ResponseWriter p)) =
          [shared_WeatherJSON
             \<lparr> City = Localidade location,
               shared_TempC = TempC (Current weather),
               shared_TempF = TempF (Current weather),
               shared_TempK = float_add W (TempC (Current weather))
                                (float_lit W (27315 / 100)) \<rparr>]"
    unfolding w by (simp add: fresh_writer)
next
  assume a: "URL_Path r' = ''/weather/'' @ zipcode \<and> isValidZipcode zipcode
      \<and> fst (getLocationFromCEP W zipcode q) = Inr location'
      \<and> fst (getWeatherFromLocation W (Localidade location') q) = Inr weather'"
  then have "map_option fst (handleWeatherRequest W r' new_ResponseWriter q) =
      Some (Encode (WeatherJSON
                \<lparr> out_TempC = TempC (Current weather'),
                  out_TempF = TempF (Current weather'),
                  out_TempK = float_add W (TempC (Current weather'))
                                (float_lit W (27315 / 100)) \<rparr>)
        (Header_Set ''Content-Type'' ''application/json'' new_ResponseWriter))"
    by (simp add: standalone_reaches_lookup)
  then show "\<exists>w q'. handleWeatherRequest W r' new_ResponseWriter q = Some (w, q')
         \<and> status w = Some 200
         \<and> written w =
             [WeatherJSON
                \<lparr> out_TempC = TempC (Current weather'),
                  out_TempF = TempF (Current weather'),
                  out_TempK = float_add W (TempC (Current weather'))
                                (float_lit W (27315 / 100)) \<rparr>]"
    by (auto simp: fresh_writer)
qed

lemma stub_lookups:
  "fst (ServiceB_getLocationFromCEP stub_world ''29902555'' stub_services) = Inr stub_location"
  "fst (ServiceB_getWeatherFromLocation stub_world Vitoria stub_services) = Inr stub_weather"
  "fst (getLocationFromCEP stub_world ''29902555'' (stub_standalone dev key)) = Inr stub_location"
  "key \<noteq> [] \<Longrightarrow>
     fst (getWeatherFromLocation stub_world Vitoria (stub_standalone dev key)) = Inr stub_weather"
  "Localidade stub_location = Vitoria"
  by (simp_all add: ServiceB_getLocationFromCEP_fst ServiceB_getWeatherFromLocation_fst
      getLocationFromCEP_fst getWeatherFromLocation_fst
      stub_world_def stub_network_def stub_services_def stub_standalone_def stub_location_def
      Vitoria_def oacute_def)

lemma stub_requests:
  "Method (post c) = ''POST''" "ReadAll (Body (post c)) = (c, None)"
  "Unmarshal_ZipcodeRequest stub_world c = Inr \<lparr>CEP = c\<rparr>"
  "URL_Path (get_weather c) = ''/weather/'' @ c"
  "isValidZipcode ''29902555''" "ServiceA_isValidZipcode ''29902555''"
  "ServiceB_isValidZipcode ''29902555''"
  by (simp_all add: post_def get_weather_def stub_world_def isValidZipcode_def
      ServiceA_isValidZipcode_def ServiceB_isValidZipcode_def MatchString_zipcode_pattern)

theorem kelvin_is_derived_fahrenheit_is_passed_on_witness:
  "status (fst (ServiceB_handleWeatherRequest stub_world (post ''29902555'') new_ResponseWriter
                  stub_services)) = Some 200
   \<and> written (fst (ServiceB_handleWeatherRequest stub_world (post ''29902555'')
                  new_ResponseWriter stub_services)) =
       [shared_WeatherJSON
          \<lparr> City = Vitoria, shared_TempC = 51 / 2, shared_TempF = 779 / 10,
            shared_TempK = 29865 / 100 \<rparr>]"
  using kelvin_is_derived_fahrenheit_is_passed_on
    [of "post ''29902555''" "''29902555''" stub_world "\<lparr>CEP = ''29902555''\<rparr>" stub_services
        stub_location stub_weather]
  by (simp add: stub_lookups stub_requests)
    (simp add: stub_weather_def stub_world_def)

text \<open>
  C1. The Gateway has sent its request to the Resolver and read the whole answer.
  Then status 404 of the Resolver becomes 404 with \<^verbatim>\<open>can not find zipcode\<close>, status
  422 becomes 422 with \<^verbatim>\<open>invalid zipcode\<close>, any other status except 200 becomes 500
  with \<^verbatim>\<open>error processing request\<close>, and status 200 becomes 200 with the report
  decoded from the Resolver's body, written back as it is.
\<close>

theorem gateway_translates_resolver_status:
  assumes "Method r = ''POST''" and "ReadAll (Body r) = (b, None)"
    and "Unmarshal_ZipcodeRequest W b = Inr request"
    and "ServiceA_isValidZipcode (CEP request)"
    and "Marshal_ZipcodeRequest W \<lparr>CEP = CEP request\<rparr> = Inr jsonBody"
    and "NewRequest_error W (ServiceBURL (config p) @ ''/weather'') = None"
    and "client_Do W (Outbound ''POST'' (ServiceBURL (config p) @ ''/weather'')
                        [(''Content-Type'', ''application/json'')] (Some jsonBody))
           = Response code body"
    and "ReadAll body = (respBody, None)"
    and "w = fst (ServiceA_handleCEPRequest W r new_ResponseWriter p)"
  shows "(code = 404 \<longrightarrow>
            status w = Some 404
            \<and> written w = [ErrorJSON \<lparr>Message = ''can not find zipcode''\<rparr>])
       \<and> (code = 422 \<longrightarrow>
            status w = Some 422
            \<and> written w = [ErrorJSON \<lparr>Message = ''invalid zipcode''\<rparr>])
       \<and> (code \<noteq> 200 \<and> code \<noteq> 404 \<and> code \<noteq> 422 \<longrightarrow>
            status w = Some 500
            \<and> written w = [ErrorJSON \<lparr>Message = ''error processing request''\<rparr>])
       \<and> (\<forall>report. code = 200 \<and> Unmarshal_WeatherResponse W respBody = Inr report \<longrightarrow>
            status w = Some 200 \<and> written w = [shared_WeatherJSON report])"
  using assms
  by (simp add: A_reaches_call ServiceA_callServiceB_fst fresh_writer)

text \<open>
  The Resolver writes the JSON text of a report on every 200. Were the body of a 200
  not to decode, the Gateway would answer 500 like any other failure of the call.
\<close>

lemma undecodable_200_is_500:
  assumes "Method r = ''POST''" and "ReadAll (Body r) = (b, None)"
    and "Unmarshal_ZipcodeRequest W b = Inr request"
    and "ServiceA_isValidZipcode (CEP request)"
    and "Marshal_ZipcodeRequest W \<lparr>CEP = CEP request\<rparr> = Inr jsonBody"
    and "NewRequest_error W (ServiceBURL (config p) @ ''/weather'') = None"
    and "client_Do W (Outbound ''POST'' (ServiceBURL (config p) @ ''/weather'')
                        [(''Content-Type'', ''application/json'')] (Some jsonBody))
           = Response 200 body"
    and "ReadAll body = (respBody, None)"
    and "Unmarshal_WeatherResponse W respBody = Inl err"
    and "w = fst (ServiceA_handleCEPRequest W r new_ResponseWriter p)"
  shows "status w = Some 500 \<and> written w = [ErrorJSON \<lparr>Message = ''error processing request''\<rparr>]"
  using assms
  by (simp add: A_reaches_call ServiceA_callServiceB_fst fresh_writer)


theorem gateway_translates_resolver_status_witness:
  "status (fst (ServiceA_handleCEPRequest stub_world (post ''99999999'') new_ResponseWriter
                  stub_services)) = Some 404
   \<and> written (fst (ServiceA_handleCEPRequest stub_world (post ''99999999'') new_ResponseWriter
                  stub_services)) = [ErrorJSON \<lparr>Message = ''can not find zipcode''\<rparr>]
   \<and> status (fst (ServiceA_handleCEPRequest stub_world (post ''29902555'') new_ResponseWriter
                  stub_services)) = Some 200
   \<and> written (fst (ServiceA_handleCEPRequest stub_world (post ''29902555'') new_ResponseWriter
                  stub_services)) = [shared_WeatherJSON stub_report]"
proof -
  have valid: "ServiceA_isValidZipcode ''99999999''"
    by (simp add: ServiceA_isValidZipcode_def MatchString_zipcode_pattern)
  have url: "ServiceBURL (config stub_services) @ ''/weather'' = ''http://service-b:8081/weather''"
    by (simp add: stub_services_def)
  have not_found:
    "client_Do stub_world (Outbound ''POST'' (ServiceBURL (config stub_services) @ ''/weather'')
        [(''Content-Type'', ''application/json'')] (Some ''99999999''))
       = Response 404 (Bytes ''not found'')"
    unfolding url by (simp add: stub_world_def stub_network_def)
  have found:
    "client_Do stub_world (Outbound ''POST'' (ServiceBURL (config stub_services) @ ''/weather'')
        [(''Content-Type'', ''application/json'')] (Some ''29902555''))
       = Response 200 (Bytes ''report'')"
    unfolding url by (simp add: stub_world_def stub_network_def)
  have rest: "Marshal_ZipcodeRequest stub_world \<lparr>CEP = c\<rparr> = Inr c"
    "NewRequest_error stub_world u = None"
    "Unmarshal_WeatherResponse stub_world ''report'' = Inr stub_report" for c u
    by (simp_all add: stub_world_def)
  show ?thesis
    using gateway_translates_resolver_status
            [where r = "post ''99999999''" and b = "''99999999''" and W = stub_world
               and request = "\<lparr>CEP = ''99999999''\<rparr>" and jsonBody = "''99999999''"
               and p = stub_services and code = 404 and body = "Bytes ''not found''"
               and respBody = "''not found''", OF _ _ _ _ _ _ not_found _ refl]
          gateway_translates_resolver_status
            [where r = "post ''29902555''" and b = "''29902555''" and W = stub_world
               and request = "\<lparr>CEP = ''29902555''\<rparr>" and jsonBody = "''29902555''"
               and p = stub_services and code = 200 and body = "Bytes ''report''"
               and respBody = "''report''", OF _ _ _ _ _ _ found _ refl]
    by (simp add: valid stub_requests rest)
qed

lemma getLocationFromCEP_calls:
  "calls (snd (getLocationFromCEP W cep p)) =
     (case NewRequest_error W (''https://viacep.com.br/ws/'' @ cep @ ''/json/'') of
        Some err \<Rightarrow> calls p
      | None \<Rightarrow> calls p @ [Outbound ''GET'' (''https://viacep.com.br/ws/'' @ cep @ ''/json/'') [] None])"
  by (simp add: getLocationFromCEP_def Let_def split_beta
      split: option.splits http_result.splits sum.splits)

text \<open>
  C6, as stated, fails in the standalone service: with development mode on and no
  weather API key, the request for a known postal code is answered with status 200
  and the mock temperatures, not with an error.
\<close>

theorem empty_key_dev_mode_counterexample:
  "WeatherAPIKey (config (stub_standalone True [])) = []
   \<and> status (fst (the (handleWeatherRequest stub_world (get_weather ''29902555'')
                         new_ResponseWriter (stub_standalone True [])))) = Some 200
   \<and> written (fst (the (handleWeatherRequest stub_world (get_weather ''29902555'')
                          new_ResponseWriter (stub_standalone True [])))) =
       [WeatherJSON \<lparr> out_TempC = 25, out_TempF = 77, out_TempK = 29815 / 100 \<rparr>]"
proof -
  have key: "WeatherAPIKey (config (stub_standalone True [])) = []"
    and dev: "DevMode (config (stub_standalone True []))"
    by (simp_all add: stub_standalone_def)
  have "map_option fst (handleWeatherRequest stub_world (get_weather ''29902555'')
          new_ResponseWriter (stub_standalone True [])) =
        Some (Encode (WeatherJSON \<lparr> out_TempC = 25, out_TempF = 77, out_TempK = 29815 / 100 \<rparr>)
                (Header_Set ''Content-Type'' ''application/json'' new_ResponseWriter))"
    by (simp add: standalone_reaches_lookup [OF stub_requests(4) stub_requests(5)]
        stub_lookups getWeatherFromLocation_fst key dev)
      (simp add: stub_world_def)
  then show ?thesis
    using key by (auto simp: fresh_writer)
qed


lemma B_calls_without_key:
  assumes "Method r = ''POST''" and "ReadAll (Body r) = (b, None)"
    and "Unmarshal_ZipcodeRequest W b = Inr request"
    and "ServiceB_isValidZipcode (CEP request)"
    and "fst (ServiceB_getLocationFromCEP W (CEP request) p) = Inr location"
    and "shared_WeatherAPIKey (config p) = []"
  shows "calls (snd (ServiceB_handleWeatherRequest W r new_ResponseWriter p)) =
           calls p @ [Outbound ''GET''
                        (''https://viacep.com.br/ws/'' @ CEP request @ ''/json/'') [] None]"
proof -
  have sent: "NewRequest_error W (''https://viacep.com.br/ws/'' @ CEP request @ ''/json/'') = None"
    using assms(5) by (simp add: ServiceB_getLocationFromCEP_fst split: option.splits)
  show ?thesis
    using assms(1-4,6) sent
    by (simp add: ServiceB_handleWeatherRequest_def Let_def split_beta
        ServiceB_getWeatherFromLocation_calls split: sum.splits)
qed

lemma standalone_returns:
  "URL_Path r = ''/weather/'' @ zipcode \<Longrightarrow> handleWeatherRequest W r w0 q \<noteq> None"
  by (simp add: handleWeatherRequest_def Let_def)

lemma standalone_snd:
  assumes "URL_Path r = ''/weather/'' @ zipcode" and "isValidZipcode zipcode"
    and "fst (getLocationFromCEP W zipcode q) = Inr location"
    and "WeatherAPIKey (config q) = []"
  shows "calls (snd (the (handleWeatherRequest W r new_ResponseWriter q))) =
           calls q @ [Outbound ''GET'' (''https://viacep.com.br/ws/'' @ zipcode @ ''/json/'') [] None]"
proof -
  have sent: "NewRequest_error W (''https://viacep.com.br/ws/'' @ zipcode @ ''/json/'') = None"
    using assms(3) by (simp add: getLocationFromCEP_fst split: option.splits)
  show ?thesis
    using assms(1,2,4) sent
    by (simp add: handleWeatherRequest_def Let_def split_beta getMockWeatherData_def
        getLocationFromCEP_calls getWeatherFromLocation_calls split: sum.splits)
qed

text \<open>
  C6, amended. With an empty weather API key the weather lookup returns its
  configuration error and sends nothing: after it the calls of the process are what
  they were, and after the whole request they are the one geocoding call. In the
  Resolver the request then fails with status 500 and
  \<^verbatim>\<open>error getting weather information\<close> (a geocoding failure is 404 with
  \<^verbatim>\<open>can not find zipcode\<close>, see C4). The standalone service does the same when
  development mode is off; when it is on, it answers 200 with the mock sample.
\<close>

theorem empty_key_fails_before_weather_call:
  "(shared_WeatherAPIKey (config p) = [] \<longrightarrow>
      fst (ServiceB_getWeatherFromLocation W city p)
        = Inl ''WEATHER_API_KEY environment variable not set''
      \<and> calls (snd (ServiceB_getWeatherFromLocation W city p)) = calls p
      \<and> (Method r = ''POST'' \<and> ReadAll (Body r) = (b, None)
           \<and> Unmarshal_ZipcodeRequest W b = Inr request
           \<and> ServiceB_isValidZipcode (CEP request)
           \<and> fst (ServiceB_getLocationFromCEP W (CEP request) p) = Inr location \<longrightarrow>
           status (fst (ServiceB_handleWeatherRequest W r new_ResponseWriter p)) = Some 500
           \<and> written (fst (ServiceB_handleWeatherRequest W r new_ResponseWriter p))
               = [ErrorJSON \<lparr>Message = ''error getting weather information''\<rparr>]
           \<and> calls (snd (ServiceB_handleWeatherRequest W r new_ResponseWriter p))
               = calls p @ [Outbound ''GET''
                              (''https://viacep.com.br/ws/'' @ CEP request @ ''/json/'')
                              [] None]))
   \<and> (WeatherAPIKey (config q) = [] \<longrightarrow>
      fst (getWeatherFromLocation W city q)
        = Inl ''WEATHER_API_KEY environment variable not set''
      \<and> calls (snd (getWeatherFromLocation W city q)) = calls q
      \<and> (URL_Path r' = ''/weather/'' @ zipcode \<and> isValidZipcode zipcode
           \<and> fst (getLocationFromCEP W zipcode q) = Inr location' \<longrightarrow>
           (\<exists>w q'. handleWeatherRequest W r' new_ResponseWriter q = Some (w, q')
              \<and> calls q' = calls q @ [Outbound ''GET''
                                        (''https://viacep.com.br/ws/'' @ zipcode @ ''/json/'')
                                        [] None]
              \<and> (if DevMode (config q) then
                    status w = Some 200
                    \<and> written w =
                        [WeatherJSON
                           \<lparr> out_TempC = float_lit W 25, out_TempF = float_lit W 77,
                             out_TempK = float_add W (float_lit W 25)
                                           (float_lit W (27315 / 100)) \<rparr>]
                  else
                    status w = Some 500
                    \<and> written w
                        = [ErrorJSON \<lparr>Message = ''error getting weather information''\<rparr>]))))"
proof (intro conjI impI)
  assume key: "shared_WeatherAPIKey (config p) = []"
  show "fst (ServiceB_getWeatherFromLocation W city p)
        = Inl ''WEATHER_API_KEY environment variable not set''"
    using key by (simp add: ServiceB_getWeatherFromLocation_fst)
  show "calls (snd (ServiceB_getWeatherFromLocation W city p)) = calls p"
    using key by (simp add: ServiceB_getWeatherFromLocation_calls)
  assume reach: "Method r = ''POST'' \<and> ReadAll (Body r) = (b, None)
           \<and> Unmarshal_ZipcodeRequest W b = Inr request
           \<and> ServiceB_isValidZipcode (CEP request)
           \<and> fst (ServiceB_getLocationFromCEP W (CEP request) p) = Inr location"
  have w: "fst (ServiceB_handleWeatherRequest W r new_ResponseWriter p) =
             ServiceB_sendErrorResponse ''error getting weather information'' 500
               (Header_Set ''Content-Type'' ''application/json'' new_ResponseWriter)"
    using reach key by (simp add: B_reaches_lookup ServiceB_getWeatherFromLocation_fst)
  show "status (fst (ServiceB_handleWeatherRequest W r new_ResponseWriter p)) = Some 500"
    unfolding w by (simp add: fresh_writer)
  show "written (fst (ServiceB_handleWeatherRequest W r new_ResponseWriter p))
               = [ErrorJSON \<lparr>Message = ''error getting weather information''\<rparr>]"
    unfolding w by (simp add: fresh_writer)
  show "calls (snd (ServiceB_handleWeatherRequest W r new_ResponseWriter p))
               = calls p @ [Outbound ''GET''
                              (''https://viacep.com.br/ws/'' @ CEP request @ ''/json/'')
                              [] None]"
    using reach key by (simp add: B_calls_without_key)
next
  assume key: "WeatherAPIKey (config q) = []"
  show "fst (getWeatherFromLocation W city q)
        = Inl ''WEATHER_API_KEY environment variable not set''"
    using key by (simp add: getWeatherFromLocation_fst)
  show "calls (snd (getWeatherFromLocation W city q)) = calls q"
    using key by (simp add: getWeatherFromLocation_calls)
  assume reach: "URL_Path r' = ''/weather/'' @ zipcode \<and> isValidZipcode zipcode
           \<and> fst (getLocationFromCEP W zipcode q) = Inr location'"
  then obtain w q' where some: "handleWeatherRequest W r' new_ResponseWriter q = Some (w, q')"
    using standalone_returns [of r' zipcode W new_ResponseWriter q] by fastforce
  have w: "w = (if DevMode (config q) then
                  Encode (WeatherJSON
                            \<lparr> out_TempC = float_lit W 25, out_TempF = float_lit W 77,
                              out_TempK = float_add W (float_lit W 25)
                                            (float_lit W (27315 / 100)) \<rparr>)
                    (Header_Set ''Content-Type'' ''application/json'' new_ResponseWriter)
                else sendErrorResponse ''error getting weather information'' 500
                    (Header_Set ''Content-Type'' ''application/json'' new_ResponseWriter))"
    using standalone_reaches_lookup [of r' zipcode W q] reach key some
    by (simp add: getWeatherFromLocation_fst)
  have c: "calls q' = calls q @ [Outbound ''GET''
                                   (''https://viacep.com.br/ws/'' @ zipcode @ ''/json/'') [] None]"
    using standalone_snd [of r' zipcode W q location'] reach key some by simp
  show "\<exists>w q'. handleWeatherRequest W r' new_ResponseWriter q = Some (w, q')
              \<and> calls q' = calls q @ [Outbound ''GET''
                                        (''https://viacep.com.br/ws/'' @ zipcode @ ''/json/'')
                                        [] None]
              \<and> (if DevMode (config q) then
                    status w = Some 200
                    \<and> written w =
                        [WeatherJSON
                           \<lparr> out_TempC = float_lit W 25, out_TempF = float_lit W 77,
                             out_TempK = float_add W (float_lit W 25)
                                           (float_lit W (27315 / 100)) \<rparr>]
                  else
                    status w = Some 500
                    \<and> written w
                        = [ErrorJSON \<lparr>Message = ''error getting weather information''\<rparr>])"
    using some w c by (auto simp: fresh_writer)
qed

theorem empty_key_fails_before_weather_call_witness:
  "status (fst (ServiceB_handleWeatherRequest stub_world (post ''29902555'') new_ResponseWriter
                  stub_services_no_key)) = Some 500
   \<and> written (fst (ServiceB_handleWeatherRequest stub_world (post ''29902555'')
                  new_ResponseWriter stub_services_no_key))
       = [ErrorJSON \<lparr>Message = ''error getting weather information''\<rparr>]
   \<and> calls (snd (ServiceB_handleWeatherRequest stub_world (post ''29902555'')
                  new_ResponseWriter stub_services_no_key))
       = [Outbound ''GET'' ''https://viacep.com.br/ws/29902555/json/'' [] None]"
proof -
  have key: "shared_WeatherAPIKey (config stub_services_no_key) = []"
    and fresh: "calls stub_services_no_key = []"
    by (simp_all add: stub_services_no_key_def stub_services_def)
  have geo: "fst (ServiceB_getLocationFromCEP stub_world ''29902555'' stub_services_no_key)
               = Inr stub_location"
    by (simp add: ServiceB_getLocationFromCEP_fst stub_world_def stub_network_def
        stub_location_def Vitoria_def)
  show ?thesis
    using empty_key_fails_before_weather_call
            [of stub_services_no_key stub_world _ "post ''29902555''" "''29902555''"
                "\<lparr>CEP = ''29902555''\<rparr>" stub_location]
    by (simp add: key fresh geo stub_requests)
qed

subsection \<open>Development mode\<close>

lemma standalone_printed:
  assumes "handleWeatherRequest W r w0 q = Some (w, q')" and "\<not> DevMode (config q)"
  shows "filter is_Printf (log_output q') = filter is_Printf (log_output q)"
  using assms
  by (auto simp: handleWeatherRequest_def Let_def split_beta
      split: if_splits sum.splits)

lemma ParseBool_empty: "ParseBool [] = None"
  by (simp add: ParseBool_def)

lemma DevMode_GetConfig:
  "DevMode (GetConfig e) \<longleftrightarrow> (\<exists>v. e ''DEV_MODE'' = Some v \<and> ParseBool v = Some True)"
  by (auto simp: GetConfig_def getEnvAsBool_def Getenv_def Let_def ParseBool_empty
      split: option.splits)

text \<open>
  C7. In the standalone service the configuration loader turns development mode on
  only for a \<^verbatim>\<open>DEV_MODE\<close> that parses as true. With the flag off, no request makes
  \<^verbatim>\<open>getMockWeatherData\<close> run (the line it prints through the standard logger never
  appears), and a failed weather lookup is answered with status 500. With the flag on,
  a failed weather lookup is answered with the mock sample: 25.0 and 77.0 degrees, the
  Kelvin value derived from them, the city name echoed in the sample.
\<close>

theorem mock_only_in_development_mode:
  "(DevMode (GetConfig e) \<longleftrightarrow> (\<exists>v. e ''DEV_MODE'' = Some v \<and> ParseBool v = Some True))
   \<and> (URL_Path r = ''/weather/'' @ zipcode \<longrightarrow>
        (\<exists>w q'. handleWeatherRequest W r new_ResponseWriter q = Some (w, q')
           \<and> (\<not> DevMode (config q) \<longrightarrow>
                 filter is_Printf (log_output q') = filter is_Printf (log_output q))
           \<and> (isValidZipcode zipcode
                \<and> fst (getLocationFromCEP W zipcode q) = Inr location
                \<and> fst (getWeatherFromLocation W (Localidade location) q) = Inl err \<longrightarrow>
                (if DevMode (config q) then
                   status w = Some 200
                   \<and> written w =
                       [WeatherJSON
                          \<lparr> out_TempC = float_lit W 25, out_TempF = float_lit W 77,
                            out_TempK = float_add W (float_lit W 25)
                                          (float_lit W (27315 / 100)) \<rparr>]
                   \<and> Name (Location (fst (getMockWeatherData W (Localidade location) q)))
                       = Localidade location
                 else
                   status w = Some 500
                   \<and> written w
                       = [ErrorJSON \<lparr>Message = ''error getting weather information''\<rparr>]))))"
proof (intro conjI impI)
  show "DevMode (GetConfig e) \<longleftrightarrow> (\<exists>v. e ''DEV_MODE'' = Some v \<and> ParseBool v = Some True)"
    by (rule DevMode_GetConfig)
next
  assume path: "URL_Path r = ''/weather/'' @ zipcode"
  then obtain w q' where some: "handleWeatherRequest W r new_ResponseWriter q = Some (w, q')"
    using standalone_returns [of r zipcode W new_ResponseWriter q] by fastforce
  have printed: "\<not> DevMode (config q) \<longrightarrow>
                 filter is_Printf (log_output q') = filter is_Printf (log_output q)"
    using standalone_printed [OF some] by simp
  have failed: "if DevMode (config q) then
                   status w = Some 200
                   \<and> written w =
                       [WeatherJSON
                          \<lparr> out_TempC = float_lit W 25, out_TempF = float_lit W 77,
                            out_TempK = float_add W (float_lit W 25)
                                          (float_lit W (27315 / 100)) \<rparr>]
                   \<and> Name (Location (fst (getMockWeatherData W (Localidade location) q)))
                       = Localidade location
                 else
                   status w = Some 500
                   \<and> written w
                       = [ErrorJSON \<lparr>Message = ''error getting weather information''\<rparr>]"
    if reach: "isValidZipcode zipcode
                \<and> fst (getLocationFromCEP W zipcode q) = Inr location
                \<and> fst (getWeatherFromLocation W (Localidade location) q) = Inl err"
  proof -
    have "map_option fst (handleWeatherRequest W r new_ResponseWriter q) =
            Some (if DevMode (config q) then
                    Encode (WeatherJSON
                              \<lparr> out_TempC = float_lit W 25, out_TempF = float_lit W 77,
                                out_TempK = float_add W (float_lit W 25)
                                              (float_lit W (27315 / 100)) \<rparr>)
                      (Header_Set ''Content-Type'' ''application/json'' new_ResponseWriter)
                  else sendErrorResponse ''error getting weather information'' 500
                      (Header_Set ''Content-Type'' ''application/json'' new_ResponseWriter))"
      using reach path by (simp add: standalone_reaches_lookup)
    then show ?thesis
      using some by (auto simp: fresh_writer getMockWeatherData_def Let_def)
  qed
  show "\<exists>w q'. handleWeatherRequest W r new_ResponseWriter q = Some (w, q')
           \<and> (\<not> DevMode (config q) \<longrightarrow>
                 filter is_Printf (log_output q') = filter is_Printf (log_output q))
           \<and> (isValidZipcode zipcode
                \<and> fst (getLocationFromCEP W zipcode q) = Inr location
                \<and> fst (getWeatherFromLocation W (Localidade location) q) = Inl err \<longrightarrow>
                (if DevMode (config q) then
                   status w = Some 200
                   \<and> written w =
                       [WeatherJSON
                          \<lparr> out_TempC = float_lit W 25, out_TempF = float_lit W 77,
                            out_TempK = float_add W (float_lit W 25)
                                          (float_lit W (27315 / 100)) \<rparr>]
                   \<and> Name (Location (fst (getMockWeatherData W (Localidade location) q)))
                       = Localidade location
                 else
                   status w = Some 500
                   \<and> written w
                       = [ErrorJSON \<lparr>Message = ''error getting weather information''\<rparr>]))"
    using some printed failed by blast
qed

theorem mock_only_in_development_mode_witness:
  "\<not> DevMode (config (stub_standalone False []))
   \<and> status (fst (the (handleWeatherRequest stub_world (get_weather ''29902555'')
                         new_ResponseWriter (stub_standalone False [])))) = Some 500
   \<and> written (fst (the (handleWeatherRequest stub_world (get_weather ''29902555'')
                          new_ResponseWriter (stub_standalone False []))))
       = [ErrorJSON \<lparr>Message = ''error getting weather information''\<rparr>]
   \<and> filter is_Printf (log_output (snd (the (handleWeatherRequest stub_world
        (get_weather ''29902555'') new_ResponseWriter (stub_standalone False []))))) = []"
proof -
  have off: "\<not> DevMode (config (stub_standalone False []))"
    and quiet: "log_output (stub_standalone False []) = []"
    by (simp_all add: stub_standalone_def)
  have failing: "fst (getWeatherFromLocation stub_world (Localidade stub_location)
                        (stub_standalone False []))
                   = Inl ''WEATHER_API_KEY environment variable not set''"
    by (simp add: getWeatherFromLocation_fst stub_standalone_def)
  have "\<exists>w q'. handleWeatherRequest stub_world (get_weather ''29902555'') new_ResponseWriter
                  (stub_standalone False []) = Some (w, q')
          \<and> filter is_Printf (log_output q') = []
          \<and> status w = Some 500
          \<and> written w = [ErrorJSON \<lparr>Message = ''error getting weather information''\<rparr>]"
    using mock_only_in_development_mode
            [of Map.empty "get_weather ''29902555''" "''29902555''" stub_world
                "stub_standalone False []" stub_location
                "''WEATHER_API_KEY environment variable not set''"]
          off quiet failing
    by (simp add: stub_requests stub_lookups)
  then obtain w q' where
    "handleWeatherRequest stub_world (get_weather ''29902555'') new_ResponseWriter
       (stub_standalone False []) = Some (w, q')"
    and "filter is_Printf (log_output q') = []" and "status w = Some 500"
    and "written w = [ErrorJSON \<lparr>Message = ''error getting weather information''\<rparr>]"
    by blast
  then show ?thesis
    using off by simp
qed

subsection \<open>One response per request\<close>

lemma ServiceB_one_response:
  "(\<exists>report. status (fst (ServiceB_handleWeatherRequest W r new_ResponseWriter p)) = Some 200
       \<and> written (fst (ServiceB_handleWeatherRequest W r new_ResponseWriter p))
           = [shared_WeatherJSON report])
   \<or> (\<exists>code message. code \<in> {400, 404, 405, 422, 500}
       \<and> status (fst (ServiceB_handleWeatherRequest W r new_ResponseWriter p)) = Some code
       \<and> written (fst (ServiceB_handleWeatherRequest W r new_ResponseWriter p))
           = [ErrorJSON \<lparr>Message = message\<rparr>])"
  by (simp add: ServiceB_handleWeatherRequest_def Let_def split_beta fresh_writer
      split: sum.splits option.splits)

lemma ServiceA_one_response:
  "(\<exists>report. status (fst (ServiceA_handleCEPRequest W r new_ResponseWriter p)) = Some 200
       \<and> written (fst (ServiceA_handleCEPRequest W r new_ResponseWriter p))
           = [shared_WeatherJSON report])
   \<or> (\<exists>code message. code \<in> {400, 404, 405, 422, 500}
       \<and> status (fst (ServiceA_handleCEPRequest W r new_ResponseWriter p)) = Some code
       \<and> written (fst (ServiceA_handleCEPRequest W r new_ResponseWriter p))
           = [ErrorJSON \<lparr>Message = message\<rparr>])"
  by (simp add: ServiceA_handleCEPRequest_def Let_def split_beta fresh_writer
      split: sum.splits option.splits)


lemma standalone_one_response:
  "(\<exists>report. status (fst (the (handleWeatherRequest W r new_ResponseWriter q))) = Some 200
       \<and> written (fst (the (handleWeatherRequest W r new_ResponseWriter q)))
           = [WeatherJSON report])
   \<or> (\<exists>code message. code \<in> {404, 422, 500}
       \<and> status (fst (the (handleWeatherRequest W r new_ResponseWriter q))) = Some code
       \<and> written (fst (the (handleWeatherRequest W r new_ResponseWriter q)))
           = [ErrorJSON \<lparr>Message = message\<rparr>])"
  if "URL_Path r = ''/weather/'' @ zipcode"
  using that
  by (simp add: handleWeatherRequest_def Let_def split_beta fresh_writer
      split: sum.splits)

text \<open>
  C8. Every request to the Resolver and to the Gateway gets exactly one body: either
  status 200 and one report, or an error status and one error envelope, and nothing
  before or after it. The same holds for the standalone service on the paths its route
  passes.
\<close>

theorem exactly_one_response:
  "((\<exists>report. status (fst (ServiceB_handleWeatherRequest W r new_ResponseWriter p)) = Some 200
        \<and> written (fst (ServiceB_handleWeatherRequest W r new_ResponseWriter p))
            = [shared_WeatherJSON report])
    \<or> (\<exists>code message. code \<in> {400, 404, 405, 422, 500}
        \<and> status (fst (ServiceB_handleWeatherRequest W r new_ResponseWriter p)) = Some code
        \<and> written (fst (ServiceB_handleWeatherRequest W r new_ResponseWriter p))
            = [ErrorJSON \<lparr>Message = message\<rparr>]))
   \<and> ((\<exists>report. status (fst (ServiceA_handleCEPRequest W r new_ResponseWriter p)) = Some 200
        \<and> written (fst (ServiceA_handleCEPRequest W r new_ResponseWriter p))
            = [shared_WeatherJSON report])
    \<or> (\<exists>code message. code \<in> {400, 404, 405, 422, 500}
        \<and> status (fst (ServiceA_handleCEPRequest W r new_ResponseWriter p)) = Some code
        \<and> written (fst (ServiceA_handleCEPRequest W r new_ResponseWriter p))
            = [ErrorJSON \<lparr>Message = message\<rparr>]))
   \<and> (URL_Path r' = ''/weather/'' @ zipcode \<longrightarrow>
        (\<exists>w q'. handleWeatherRequest W r' new_ResponseWriter q = Some (w, q')
           \<and> ((\<exists>report. status w = Some 200 \<and> written w = [WeatherJSON report])
              \<or> (\<exists>code message. code \<in> {404, 422, 500} \<and> status w = Some code
                    \<and> written w = [ErrorJSON \<lparr>Message = message\<rparr>]))))"
proof (intro conjI impI)
  show "(\<exists>report. status (fst (ServiceB_handleWeatherRequest W r new_ResponseWriter p)) = Some 200
        \<and> written (fst (ServiceB_handleWeatherRequest W r new_ResponseWriter p))
            = [shared_WeatherJSON report])
    \<or> (\<exists>code message. code \<in> {400, 404, 405, 422, 500}
        \<and> status (fst (ServiceB_handleWeatherRequest W r new_ResponseWriter p)) = Some code
        \<and> written (fst (ServiceB_handleWeatherRequest W r new_ResponseWriter p))
            = [ErrorJSON \<lparr>Message = message\<rparr>])"
    by (rule ServiceB_one_response)
  show "(\<exists>report. status (fst (ServiceA_handleCEPRequest W r new_ResponseWriter p)) = Some 200
        \<and> written (fst (ServiceA_handleCEPRequest W r new_ResponseWriter p))
            = [shared_WeatherJSON report])
    \<or> (\<exists>code message. code \<in> {400, 404, 405, 422, 500}
        \<and> status (fst (ServiceA_handleCEPRequest W r new_ResponseWriter p)) = Some code
        \<and> written (fst (ServiceA_handleCEPRequest W r new_ResponseWriter p))
            = [ErrorJSON \<lparr>Message = message\<rparr>])"
    by (rule ServiceA_one_response)
next
  assume "URL_Path r' = ''/weather/'' @ zipcode"
  then obtain w q' where some: "handleWeatherRequest W r' new_ResponseWriter q = Some (w, q')"
    using standalone_returns [of r' zipcode W new_ResponseWriter q] by fastforce
  with standalone_one_response [OF \<open>URL_Path r' = ''/weather/'' @ zipcode\<close>, of W q]
  show "\<exists>w q'. handleWeatherRequest W r' new_ResponseWriter q = Some (w, q')
           \<and> ((\<exists>report. status w = Some 200 \<and> written w = [WeatherJSON report])
              \<or> (\<exists>code message. code \<in> {404, 422, 500} \<and> status w = Some code
                    \<and> written w = [ErrorJSON \<lparr>Message = message\<rparr>]))"
    by simp
qed

theorem exactly_one_response_witness:
  "length (written (fst (the (handleWeatherRequest stub_world (get_weather ''12345'')
                               new_ResponseWriter (stub_standalone False ''test_api_key''))))) = 1
   \<and> length (written (fst (ServiceB_handleWeatherRequest stub_world (post ''29902555'')
                              new_ResponseWriter stub_services))) = 1
   \<and> length (written (fst (ServiceA_handleCEPRequest stub_world (post ''29902555'')
                              new_ResponseWriter stub_services))) = 1"
proof -
  note one = exactly_one_response
               [of stub_world "post ''29902555''" stub_services "get_weather ''12345''" "''12345''"
                   "stub_standalone False ''test_api_key''"]
  have resolver: "length (written (fst (ServiceB_handleWeatherRequest stub_world
                     (post ''29902555'') new_ResponseWriter stub_services))) = 1"
    using one [THEN conjunct1] by (elim disjE exE conjE) simp_all
  have gateway: "length (written (fst (ServiceA_handleCEPRequest stub_world
                     (post ''29902555'') new_ResponseWriter stub_services))) = 1"
    using one [THEN conjunct2, THEN conjunct1] by (elim disjE exE conjE) simp_all
  have "URL_Path (get_weather ''12345'') = ''/weather/'' @ ''12345''"
    by (rule stub_requests)
  with one [THEN conjunct2, THEN conjunct2]
  obtain w q' where
    "handleWeatherRequest stub_world (get_weather ''12345'') new_ResponseWriter
       (stub_standalone False ''test_api_key'') = Some (w, q')"
    and "(\<exists>report. status w = Some 200 \<and> written w = [WeatherJSON report])
         \<or> (\<exists>code message. code \<in> {404, 422, 500} \<and> status w = Some code
               \<and> written w = [ErrorJSON \<lparr>Message = message\<rparr>])"
    by blast
  then have "length (written (fst (the (handleWeatherRequest stub_world (get_weather ''12345'')
               new_ResponseWriter (stub_standalone False ''test_api_key''))))) = 1"
    by (elim disjE exE conjE) simp_all
  with resolver gateway show ?thesis
    by simp
qed

subsection \<open>No state carried between requests\<close>

lemma ServiceB_response_from_config:
  assumes "config q = config p"
  shows "fst (ServiceB_handleWeatherRequest W r w0 q) = fst (ServiceB_handleWeatherRequest W r w0 p)"
proof -
  define geo where "geo = (\<lambda>cep. fst (ServiceB_getLocationFromCEP W cep p))"
  define weather where "weather = (\<lambda>city. fst (ServiceB_getWeatherFromLocation W city p))"
  have geo: "fst (ServiceB_getLocationFromCEP W cep s) = geo cep" for cep s
    by (simp add: geo_def ServiceB_getLocationFromCEP_fst)
  have weather: "fst (ServiceB_getWeatherFromLocation W city s) = weather city"
    if "config s = config p" for city s
    unfolding weather_def ServiceB_getWeatherFromLocation_fst that by (rule refl)
  show ?thesis
    using assms
    by (simp add: ServiceB_handleWeatherRequest_def Let_def split_beta geo weather
        split: sum.splits option.splits)
qed

lemma ServiceB_keeps_config:
  "config (snd (ServiceB_handleWeatherRequest W r w0 p)) = config p"
  by (simp add: ServiceB_handleWeatherRequest_def Let_def split_beta
      split: sum.splits option.splits)

lemma ServiceA_response_from_config:
  assumes "config q = config p"
  shows "fst (ServiceA_handleCEPRequest W r w0 q) = fst (ServiceA_handleCEPRequest W r w0 p)"
proof -
  define resolver where "resolver = (\<lambda>cep. fst (ServiceA_callServiceB W cep p))"
  have resolver: "fst (ServiceA_callServiceB W cep s) = resolver cep"
    if "config s = config p" for cep s
    unfolding resolver_def ServiceA_callServiceB_fst that by (rule refl)
  show ?thesis
    using assms
    by (simp add: ServiceA_handleCEPRequest_def Let_def split_beta resolver
        split: sum.splits option.splits)
qed

lemma ServiceA_keeps_config:
  "config (snd (ServiceA_handleCEPRequest W r w0 p)) = config p"
  by (simp add: ServiceA_handleCEPRequest_def Let_def split_beta
      split: sum.splits option.splits)

lemma standalone_response_from_config:
  assumes "config q = config p"
  shows "map_option fst (handleWeatherRequest W r w0 q)
           = map_option fst (handleWeatherRequest W r w0 p)"
proof -
  define geo where "geo = (\<lambda>cep. fst (getLocationFromCEP W cep p))"
  define weather where "weather = (\<lambda>city. fst (getWeatherFromLocation W city p))"
  have geo: "fst (getLocationFromCEP W cep s) = geo cep" for cep s
    by (simp add: geo_def getLocationFromCEP_fst)
  have weather: "fst (getWeatherFromLocation W city s) = weather city"
    if "config s = config p" for city s
    unfolding weather_def getWeatherFromLocation_fst that by (rule refl)
  show ?thesis
    using assms
    by (simp add: handleWeatherRequest_def Let_def split_beta getMockWeatherData_def
        geo weather split: sum.splits)
qed

lemma standalone_keeps_config:
  "handleWeatherRequest W r w0 p = Some (w, p') \<Longrightarrow> config p' = config p"
  by (auto simp: handleWeatherRequest_def Let_def split_beta getMockWeatherData_def
      split: sum.splits option.splits if_splits)

text \<open>
  C9. Handling a request changes the log, the spans and the list of calls of the
  process, and nothing a response depends on: the same request, handled again in the
  state the first handling left behind and against the same world, gets the same
  response.
\<close>

theorem same_request_again_same_response:
  "(ServiceB_handleWeatherRequest W r w0 p = (w1, p1) \<longrightarrow>
      fst (ServiceB_handleWeatherRequest W r w0 p1) = w1)
   \<and> (ServiceA_handleCEPRequest W r w0 p = (w2, p2) \<longrightarrow>
      fst (ServiceA_handleCEPRequest W r w0 p2) = w2)
   \<and> (handleWeatherRequest W r' w0 q = Some (w3, q3) \<longrightarrow>
      map_option fst (handleWeatherRequest W r' w0 q3) = Some w3)"
proof (intro conjI impI)
  assume run: "ServiceB_handleWeatherRequest W r w0 p = (w1, p1)"
  then have "config p1 = config p"
    using ServiceB_keeps_config [of W r w0 p] by simp
  then show "fst (ServiceB_handleWeatherRequest W r w0 p1) = w1"
    using ServiceB_response_from_config [of p1 p W r w0] run by simp
next
  assume run: "ServiceA_handleCEPRequest W r w0 p = (w2, p2)"
  then have "config p2 = config p"
    using ServiceA_keeps_config [of W r w0 p] by simp
  then show "fst (ServiceA_handleCEPRequest W r w0 p2) = w2"
    using ServiceA_response_from_config [of p2 p W r w0] run by simp
next
  assume run: "handleWeatherRequest W r' w0 q = Some (w3, q3)"
  then have "config q3 = config q"
    by (rule standalone_keeps_config)
  then show "map_option fst (handleWeatherRequest W r' w0 q3) = Some w3"
    using standalone_response_from_config [of q3 q W r' w0] run by simp
qed

theorem same_request_again_same_response_witness:
  "fst (ServiceB_handleWeatherRequest stub_world (post ''29902555'') new_ResponseWriter
          (snd (ServiceB_handleWeatherRequest stub_world (post ''29902555'') new_ResponseWriter
                  stub_services)))
     = fst (ServiceB_handleWeatherRequest stub_world (post ''29902555'') new_ResponseWriter
              stub_services)"
  using same_request_again_same_response
          [where W = stub_world and r = "post ''29902555''" and ?w0.0 = new_ResponseWriter
             and p = stub_services
             and ?w1.0 = "fst (ServiceB_handleWeatherRequest stub_world (post ''29902555'')
                               new_ResponseWriter stub_services)"
             and ?p1.0 = "snd (ServiceB_handleWeatherRequest stub_world (post ''29902555'')
                               new_ResponseWriter stub_services)"]
  by simp

end
